theory Spec2Isabelle
  imports Main "HOL-Library.Word" "HOL-Library.Multiset" "HOL-Library.List_Lexorder"
    "HOL-Library.Product_Lexorder"
begin

unbundle bit_operations_syntax

section \<open>Values\<close>

text \<open>
  The idea store of \<^verbatim>\<open>db.js\<close> (class \<^verbatim>\<open>IdeaDatabase\<close>) keeps one SQLite table,
  \<^verbatim>\<open>ideas\<close>, inside sql.js and writes the whole database file, base64-encoded, into one
  localStorage entry after each change.

  Strings are \<open>string\<close>: sequences of characters with codes below 256. JavaScript values are
  the fragment the store handles: null, numbers (integers), strings, arrays, plain objects
  (property lists in insertion order) and byte arrays (\<^verbatim>\<open>Uint8Array\<close>). An SQL value of the
  table is NULL, text or a blob (every column is declared \<^verbatim>\<open>TEXT\<close>). A string bound to a
  statement is stored as it is; sql.js hands text to SQLite up to its first character of
  code 0, so strings holding that character are left out of the model.
\<close>

datatype jsval =
    JNull
  | JNum int
  | JStr string
  | JArr "jsval list"
  | JObj "(string \<times> jsval) list"
  | JBytes "8 word list"

datatype sqlval = SNull | SText string | SBlob "8 word list"

type_synonym jsobject = "(string \<times> jsval) list"

text \<open>JavaScript truthiness, as tested by \<^verbatim>\<open>if (row.tags)\<close>.\<close>

fun truthy :: "jsval \<Rightarrow> bool" where
  "truthy JNull = False"
| "truthy (JNum n) = (n \<noteq> 0)"
| "truthy (JStr s) = (s \<noteq> [])"
| "truthy (JArr xs) = True"
| "truthy (JObj ps) = True"
| "truthy (JBytes bs) = True"

text \<open>Assignment to a property: an existing property keeps its place, a new one goes last.\<close>

fun set_prop :: "string \<Rightarrow> jsval \<Rightarrow> jsobject \<Rightarrow> jsobject" where
  "set_prop k v [] = [(k, v)]"
| "set_prop k v ((k', x) # ps) = (if k' = k then (k', v) # ps else (k', x) # set_prop k v ps)"

section \<open>The table \<^verbatim>\<open>ideas\<close>\<close>

text \<open>
  \<^verbatim>\<open>createSchema\<close> declares ten columns. A row of the table is a record of their values;
  the table is the list of its rows in rowid order, which is the order of insertion (a new
  row gets a rowid above every rowid in use, rowids staying below the largest one).
\<close>

datatype column =
    Col_id | Col_title | Col_body | Col_stage | Col_tags
  | Col_essence | Col_insight | Col_next_action | Col_created_at | Col_updated_at

text \<open>
  The table comes in three layouts. The \<^verbatim>\<open>createSchema\<close> of the present \<^verbatim>\<open>db.js\<close> declares
  \<^verbatim>\<open>tags\<close> as the fifth column. The \<^verbatim>\<open>createSchema\<close> of the earlier \<^verbatim>\<open>db.js\<close> declares the
  other nine columns and no \<^verbatim>\<open>tags\<close>; on a database it created, \<^verbatim>\<open>runMigrations\<close> adds the
  column with \<^verbatim>\<open>ALTER TABLE ideas ADD COLUMN\<close>, which puts it last.
\<close>

datatype schema = Schema_current | Schema_original | Schema_migrated

fun columns_of :: "schema \<Rightarrow> column list" where
  "columns_of Schema_current =
     [Col_id, Col_title, Col_body, Col_stage, Col_tags,
      Col_essence, Col_insight, Col_next_action, Col_created_at, Col_updated_at]"
| "columns_of Schema_original =
     [Col_id, Col_title, Col_body, Col_stage,
      Col_essence, Col_insight, Col_next_action, Col_created_at, Col_updated_at]"
| "columns_of Schema_migrated =
     [Col_id, Col_title, Col_body, Col_stage,
      Col_essence, Col_insight, Col_next_action, Col_created_at, Col_updated_at, Col_tags]"

definition has_tags_column :: "schema \<Rightarrow> bool" where
  "has_tags_column sch = (Col_tags \<in> set (columns_of sch))"

fun column_name :: "column \<Rightarrow> string" where
  "column_name Col_id = ''id''"
| "column_name Col_title = ''title''"
| "column_name Col_body = ''body''"
| "column_name Col_stage = ''stage''"
| "column_name Col_tags = ''tags''"
| "column_name Col_essence = ''essence''"
| "column_name Col_insight = ''insight''"
| "column_name Col_next_action = ''next_action''"
| "column_name Col_created_at = ''created_at''"
| "column_name Col_updated_at = ''updated_at''"

text \<open>In a table without the column \<^verbatim>\<open>tags\<close> the field \<open>tags_col\<close> of a row stands for nothing.\<close>

record idea_row =
  id_col :: sqlval
  title_col :: sqlval
  body_col :: sqlval
  stage_col :: sqlval
  tags_col :: sqlval
  essence_col :: sqlval
  insight_col :: sqlval
  next_action_col :: sqlval
  created_at_col :: sqlval
  updated_at_col :: sqlval

fun get_col :: "column \<Rightarrow> idea_row \<Rightarrow> sqlval" where
  "get_col Col_id r = id_col r"
| "get_col Col_title r = title_col r"
| "get_col Col_body r = body_col r"
| "get_col Col_stage r = stage_col r"
| "get_col Col_tags r = tags_col r"
| "get_col Col_essence r = essence_col r"
| "get_col Col_insight r = insight_col r"
| "get_col Col_next_action r = next_action_col r"
| "get_col Col_created_at r = created_at_col r"
| "get_col Col_updated_at r = updated_at_col r"

fun set_col :: "column \<Rightarrow> sqlval \<Rightarrow> idea_row \<Rightarrow> idea_row" where
  "set_col Col_id v r = r\<lparr>id_col := v\<rparr>"
| "set_col Col_title v r = r\<lparr>title_col := v\<rparr>"
| "set_col Col_body v r = r\<lparr>body_col := v\<rparr>"
| "set_col Col_stage v r = r\<lparr>stage_col := v\<rparr>"
| "set_col Col_tags v r = r\<lparr>tags_col := v\<rparr>"
| "set_col Col_essence v r = r\<lparr>essence_col := v\<rparr>"
| "set_col Col_insight v r = r\<lparr>insight_col := v\<rparr>"
| "set_col Col_next_action v r = r\<lparr>next_action_col := v\<rparr>"
| "set_col Col_created_at v r = r\<lparr>created_at_col := v\<rparr>"
| "set_col Col_updated_at v r = r\<lparr>updated_at_col := v\<rparr>"

text \<open>
  The keys of an update are written into the text of the statement. A plain name is a
  letter or underscore followed by letters, digits and underscores. SQLite matches a plain
  name against the columns of the table without regard to the case of ASCII letters, and
  the statement does not compile when the name is none of them, unless it is one of the
  names of the rowid (\<^verbatim>\<open>rowid\<close>, \<^verbatim>\<open>oid\<close>, \<^verbatim>\<open>_rowid_\<close>). What SQLite makes of a statement
  with a rowid name, or with a key that is not a plain name (quoted, padded, or carrying
  SQL syntax of its own), is left to the platform below.
\<close>

definition lower_ascii :: "char \<Rightarrow> char" where
  "lower_ascii c =
     (let n = (of_char c :: nat) in if 65 \<le> n \<and> n \<le> 90 then char_of (n + 32) else c)"

definition is_name_start :: "char \<Rightarrow> bool" where
  "is_name_start c =
     (let n = (of_char c :: nat) in (65 \<le> n \<and> n \<le> 90) \<or> (97 \<le> n \<and> n \<le> 122) \<or> n = 95)"

definition is_name_char :: "char \<Rightarrow> bool" where
  "is_name_char c = (is_name_start c \<or> (48 \<le> (of_char c :: nat) \<and> (of_char c :: nat) \<le> 57))"

definition plain_name :: "string \<Rightarrow> bool" where
  "plain_name key =
     (case key of [] \<Rightarrow> False | c # cs \<Rightarrow> is_name_start c \<and> list_all is_name_char cs)"

definition rowid_name :: "string \<Rightarrow> bool" where
  "rowid_name key = (map lower_ascii key \<in> {''rowid'', ''oid'', ''_rowid_''})"

definition resolve_column :: "schema \<Rightarrow> string \<Rightarrow> column option" where
  "resolve_column sch key = find (\<lambda>c. column_name c = map lower_ascii key) (columns_of sch)"

datatype statement = Assigns "column list" | No_such_column | Left_to_sqlite

definition update_statement :: "schema \<Rightarrow> string list \<Rightarrow> statement" where
  "update_statement sch names =
     (if list_ex (\<lambda>key. \<not> plain_name key \<or> rowid_name key) names then Left_to_sqlite
      else case those (map (resolve_column sch) names) of
             Some cols \<Rightarrow> Assigns cols
           | None \<Rightarrow> No_such_column)"

text \<open>
  The constraints of the schema on one row: \<^verbatim>\<open>NOT NULL\<close> on title, body, stage, created_at
  and updated_at, and \<^verbatim>\<open>CHECK(stage IN ('captured', 'distilled', 'expressed', 'actioned'))\<close>.
  \<^verbatim>\<open>id TEXT PRIMARY KEY\<close>: no two rows hold the same id, NULL apart.
\<close>

definition stage_ok :: "sqlval \<Rightarrow> bool" where
  "stage_ok v = (v = SText ''captured'' \<or> v = SText ''distilled''
               \<or> v = SText ''expressed'' \<or> v = SText ''actioned'')"

definition row_ok :: "idea_row \<Rightarrow> bool" where
  "row_ok r = (title_col r \<noteq> SNull \<and> body_col r \<noteq> SNull \<and> stage_col r \<noteq> SNull
             \<and> created_at_col r \<noteq> SNull \<and> updated_at_col r \<noteq> SNull \<and> stage_ok (stage_col r))"

definition primary_key_ok :: "idea_row list \<Rightarrow> bool" where
  "primary_key_ok rows = distinct (filter (\<lambda>v. v \<noteq> SNull) (map id_col rows))"

text \<open>
  \<^verbatim>\<open>ORDER BY updated_at DESC\<close>. SQLite orders NULL before text before blobs, text and
  blobs bytewise. Rows with equal keys come out in rowid order, which is what the index
  \<^verbatim>\<open>idx_updated_at\<close> yields: the sort is an insertion sort that keeps equal keys in place.
\<close>

fun order_key :: "sqlval \<Rightarrow> nat \<times> nat list" where
  "order_key SNull = (0, [])"
| "order_key (SText s) = (1, map of_char s)"
| "order_key (SBlob bs) = (2, map unat bs)"

fun insert_desc :: "idea_row \<Rightarrow> idea_row list \<Rightarrow> idea_row list" where
  "insert_desc x [] = [x]"
| "insert_desc x (y # ys) =
     (if order_key (updated_at_col x) < order_key (updated_at_col y)
      then y # insert_desc x ys else x # y # ys)"

definition order_by_updated_at_desc :: "idea_row list \<Rightarrow> idea_row list" where
  "order_by_updated_at_desc rows = foldr insert_desc rows []"

text \<open>
  \<^verbatim>\<open>stmt.getAsObject()\<close> on \<^verbatim>\<open>SELECT *\<close>: one property per column of the table, in the
  order of its layout.
\<close>

fun to_js :: "sqlval \<Rightarrow> jsval" where
  "to_js SNull = JNull"
| "to_js (SText s) = JStr s"
| "to_js (SBlob bs) = JBytes bs"

definition getAsObject :: "schema \<Rightarrow> idea_row \<Rightarrow> jsobject" where
  "getAsObject sch r = map (\<lambda>c. (column_name c, to_js (get_col c r))) (columns_of sch)"

section \<open>The platform\<close>

text \<open>
  What the store calls and the repository does not define: \<^verbatim>\<open>JSON.stringify\<close>,
  \<^verbatim>\<open>JSON.parse\<close> (\<open>None\<close> when it throws; it converts its argument to a string first),
  the binding by sql.js of a value that is neither null, a string nor a byte array
  (\<open>None\<close> when it throws), \<^verbatim>\<open>Database.export\<close> and \<^verbatim>\<open>new SQL.Database(bytes)\<close>
  (the layout and the rows of the table \<^verbatim>\<open>ideas\<close> in the file; \<open>None\<close> when no such table
  can be read from the bytes), \<^verbatim>\<open>btoa\<close>, \<^verbatim>\<open>atob\<close> (\<open>None\<close> when it throws) and whether
  \<^verbatim>\<open>localStorage.setItem\<close> accepts a value (it throws when the quota is exceeded).
  \<open>sqlite_update\<close> is what SQLite makes of the statement of \<^verbatim>\<open>updateIdea\<close> when a key is
  not a plain column name: given the names in the \<^verbatim>\<open>SET\<close> clause, the values bound and the
  table, the rows after the statement, or \<open>None\<close> when preparing, binding or stepping
  throws.
\<close>

record platform =
  JSON_stringify :: "jsval \<Rightarrow> string"
  JSON_parse :: "jsval \<Rightarrow> jsval option"
  bind_other :: "jsval \<Rightarrow> sqlval option"
  sqlite_update :: "string list \<Rightarrow> jsval list \<Rightarrow> schema \<Rightarrow> idea_row list \<Rightarrow> idea_row list option"
  db_export :: "schema \<Rightarrow> idea_row list \<Rightarrow> 8 word list"
  db_open :: "8 word list \<Rightarrow> (schema \<times> idea_row list) option"
  btoa :: "string \<Rightarrow> string"
  atob :: "string \<Rightarrow> string option"
  setItem_accepts :: "string \<Rightarrow> bool"

fun bindValue :: "platform \<Rightarrow> jsval \<Rightarrow> sqlval option" where
  "bindValue P JNull = Some SNull"
| "bindValue P (JStr s) = Some (SText s)"
| "bindValue P (JBytes bs) = Some (SBlob bs)"
| "bindValue P v = bind_other P v"

section \<open>The store\<close>

text \<open>
  The state: the layout and the rows of the table held by sql.js (\<^verbatim>\<open>this.db\<close>), the
  localStorage entry \<^verbatim>\<open>idea-library.db\<close>, and the number of calls of
  \<^verbatim>\<open>localStorage.setItem\<close> so far.
  An operation returns its result, or the error it throws, together with the state it leaves.
\<close>

record store =
  schema :: schema
  db :: "idea_row list"
  storage :: "string option"
  writes :: nat

datatype error = SqlError | BindError | ConstraintError | PersistenceError | LoadError

definition DB_VERSION :: int where
  "DB_VERSION = 1"

definition uint8ArrayToBase64 :: "platform \<Rightarrow> 8 word list \<Rightarrow> string" where
  "uint8ArrayToBase64 P uint8Array = btoa P (map (\<lambda>b. char_of (unat b)) uint8Array)"

definition base64ToUint8Array :: "platform \<Rightarrow> string \<Rightarrow> 8 word list option" where
  "base64ToUint8Array P base64 =
     (case atob P base64 of
        None \<Rightarrow> None
      | Some binary \<Rightarrow> Some (map (\<lambda>c. word_of_nat (of_char c)) binary))"

definition save :: "platform \<Rightarrow> store \<Rightarrow> (error + unit) \<times> store" where
  "save P s =
     (let data = db_export P (schema s) (db s);
          base64 = uint8ArrayToBase64 P data
      in if setItem_accepts P base64
         then (Inr (), s\<lparr>storage := Some base64, writes := writes s + 1\<rparr>)
         else (Inl PersistenceError, s\<lparr>writes := writes s + 1\<rparr>))"

text \<open>
  \<^verbatim>\<open>generateUUID\<close> replaces each \<^verbatim>\<open>x\<close> and \<^verbatim>\<open>y\<close> of the template, from left to right,
  by a hexadecimal digit made from one call of \<^verbatim>\<open>Math.random\<close>. The draws
  \<^verbatim>\<open>Math.random() * 16 | 0\<close> are numbers from 0 to 15: \<open>rnd k\<close> is the draw of call \<open>k\<close>.
\<close>

definition hex_digit :: "4 word \<Rightarrow> char" where
  "hex_digit v = ''0123456789abcdef'' ! unat v"

fun replace_xy :: "(nat \<Rightarrow> 4 word) \<Rightarrow> nat \<Rightarrow> string \<Rightarrow> string" where
  "replace_xy rnd k [] = []"
| "replace_xy rnd k (c # cs) =
     (if c = CHR ''x'' then hex_digit (rnd k) # replace_xy rnd (Suc k) cs
      else if c = CHR ''y'' then hex_digit ((rnd k AND 3) OR 8) # replace_xy rnd (Suc k) cs
      else c # replace_xy rnd k cs)"

definition generateUUID :: "(nat \<Rightarrow> 4 word) \<Rightarrow> string" where
  "generateUUID rnd = replace_xy rnd 0 ''xxxxxxxx-xxxx-4xxx-yxxx-xxxxxxxxxxxx''"

text \<open>
  \<^verbatim>\<open>createIdea(title, body, tags = [])\<close>; \<open>now\<close> is \<^verbatim>\<open>new Date().toISOString()\<close>.
  The \<^verbatim>\<open>INSERT\<close> names the column \<^verbatim>\<open>tags\<close>, so it does not compile on a table without it,
  and it fails (\<^verbatim>\<open>stmt.step()\<close> throws) when the id is already in the table.
\<close>

definition inserted_row :: "string \<Rightarrow> string \<Rightarrow> string \<Rightarrow> string \<Rightarrow> string \<Rightarrow> idea_row" where
  "inserted_row new_id title body tagsJson now =
     \<lparr>id_col = SText new_id, title_col = SText title, body_col = SText body,
      stage_col = SText ''captured'', tags_col = SText tagsJson,
      essence_col = SNull, insight_col = SNull, next_action_col = SNull,
      created_at_col = SText now, updated_at_col = SText now\<rparr>"

definition createIdea ::
  "platform \<Rightarrow> (nat \<Rightarrow> 4 word) \<Rightarrow> string \<Rightarrow> store \<Rightarrow> string \<Rightarrow> string \<Rightarrow> jsval
     \<Rightarrow> (error + string) \<times> store" where
  "createIdea P rnd now s title body tags =
     (let new_id = generateUUID rnd;
          tagsJson = JSON_stringify P tags
      in if \<not> has_tags_column (schema s) then (Inl SqlError, s)
         else if SText new_id \<in> set (map id_col (db s)) then (Inl ConstraintError, s)
         else (case save P (s\<lparr>db := db s @ [inserted_row new_id title body tagsJson now]\<rparr>) of
                 (Inl e, s') \<Rightarrow> (Inl e, s')
               | (Inr u, s') \<Rightarrow> (Inr new_id, s')))"

text \<open>
  \<^verbatim>\<open>updateIdea(id, updates)\<close>. The loop over \<^verbatim>\<open>Object.entries(updates)\<close> skips the keys
  \<^verbatim>\<open>id\<close> and \<^verbatim>\<open>created_at\<close> and turns the value of the key \<^verbatim>\<open>tags\<close> into JSON text.
\<close>

fun update_entries :: "platform \<Rightarrow> (string \<times> jsval) list \<Rightarrow> (string \<times> jsval) list" where
  "update_entries P [] = []"
| "update_entries P ((key, val) # rest) =
     (if key \<noteq> ''id'' \<and> key \<noteq> ''created_at''
      then (key, if key = ''tags'' then JStr (JSON_stringify P val) else val)
             # update_entries P rest
      else update_entries P rest)"

text \<open>
  \<^verbatim>\<open>UPDATE ideas SET k1 = ?, ..., updated_at = ? WHERE id = ?\<close>, with the values and then
  the id bound. With plain column names: preparing the statement fails when a name is no
  column of the table, binding fails when sql.js rejects a value, and the step fails,
  changing nothing, when a row it rewrites breaks a constraint. Where a column is assigned
  more than once, the rightmost assignment counts. Whatever the statement, \<^verbatim>\<open>save\<close> and
  \<^verbatim>\<open>return true\<close> follow when it has run.
\<close>

definition assign_columns :: "(column \<times> sqlval) list \<Rightarrow> idea_row \<Rightarrow> idea_row" where
  "assign_columns assignments r = foldl (\<lambda>r' (c, v). set_col c v r') r assignments"

definition update_fields :: "platform \<Rightarrow> (string \<times> jsval) list \<Rightarrow> string list" where
  "update_fields P updates = map fst (update_entries P updates) @ [''updated_at'']"

definition update_values :: "platform \<Rightarrow> string \<Rightarrow> (string \<times> jsval) list \<Rightarrow> jsval list" where
  "update_values P now updates = map snd (update_entries P updates) @ [JStr now]"

definition save_and_return_true :: "platform \<Rightarrow> store \<Rightarrow> (error + bool) \<times> store" where
  "save_and_return_true P s =
     (case save P s of
        (Inl e, s') \<Rightarrow> (Inl e, s')
      | (Inr u, s') \<Rightarrow> (Inr True, s'))"

definition updateIdea ::
  "platform \<Rightarrow> string \<Rightarrow> store \<Rightarrow> string \<Rightarrow> (string \<times> jsval) list
     \<Rightarrow> (error + bool) \<times> store" where
  "updateIdea P now s ident updates =
     (case update_statement (schema s) (update_fields P updates) of
        No_such_column \<Rightarrow> (Inl SqlError, s)
      | Left_to_sqlite \<Rightarrow>
          (case sqlite_update P (update_fields P updates)
                  (update_values P now updates @ [JStr ident]) (schema s) (db s) of
             None \<Rightarrow> (Inl SqlError, s)
           | Some rows' \<Rightarrow> save_and_return_true P (s\<lparr>db := rows'\<rparr>))
      | Assigns cols \<Rightarrow>
          (case those (map (bindValue P) (update_values P now updates)) of
             None \<Rightarrow> (Inl BindError, s)
           | Some bound \<Rightarrow>
               (let targets = filter (\<lambda>r. id_col r = SText ident) (db s);
                    rows' = map (\<lambda>r. if id_col r = SText ident
                                      then assign_columns (zip cols bound) r else r) (db s)
                in if targets \<noteq> []
                      \<and> \<not> (list_all row_ok (map (assign_columns (zip cols bound)) targets)
                            \<and> primary_key_ok rows')
                   then (Inl ConstraintError, s)
                   else save_and_return_true P (s\<lparr>db := rows'\<rparr>))))"

text \<open>\<^verbatim>\<open>deleteIdea(id)\<close>: \<^verbatim>\<open>DELETE FROM ideas WHERE id = ?\<close>, then \<^verbatim>\<open>save\<close>.\<close>

definition deleteIdea :: "platform \<Rightarrow> store \<Rightarrow> string \<Rightarrow> (error + bool) \<times> store" where
  "deleteIdea P s ident =
     save_and_return_true P (s\<lparr>db := filter (\<lambda>r. id_col r \<noteq> SText ident) (db s)\<rparr>)"

text \<open>
  The block shared by \<^verbatim>\<open>getAllIdeas\<close> and \<^verbatim>\<open>getIdea\<close>: \<^verbatim>\<open>row.tags\<close> becomes the parsed
  JSON when it is truthy and parses, and the empty array otherwise. A row object without
  the property (a table without the column) reads \<^verbatim>\<open>undefined\<close>, which is falsy.
\<close>

definition parse_tags :: "platform \<Rightarrow> jsobject \<Rightarrow> jsobject" where
  "parse_tags P row =
     (case map_of row ''tags'' of
        None \<Rightarrow> set_prop ''tags'' (JArr []) row
      | Some t \<Rightarrow>
          if truthy t
          then (case JSON_parse P t of
                  Some parsed \<Rightarrow> set_prop ''tags'' parsed row
                | None \<Rightarrow> set_prop ''tags'' (JArr []) row)
          else set_prop ''tags'' (JArr []) row)"

text \<open>
  \<^verbatim>\<open>getAllIdeas()\<close> and \<^verbatim>\<open>getIdea(id)\<close> read the table and nothing else: they take the
  state and return no new one, as the code assigns to neither the table nor localStorage.
\<close>

definition getAllIdeas :: "platform \<Rightarrow> store \<Rightarrow> jsobject list" where
  "getAllIdeas P s =
     map (\<lambda>r. parse_tags P (getAsObject (schema s) r)) (order_by_updated_at_desc (db s))"

definition getIdea :: "platform \<Rightarrow> store \<Rightarrow> string \<Rightarrow> jsobject option" where
  "getIdea P s ident =
     (case filter (\<lambda>r. id_col r = SText ident) (db s) of
        [] \<Rightarrow> None
      | r # rest \<Rightarrow> Some (parse_tags P (getAsObject (schema s) r)))"

definition exportToJSON :: "platform \<Rightarrow> string \<Rightarrow> store \<Rightarrow> jsval" where
  "exportToJSON P now s =
     JObj [(''schema_version'', JNum DB_VERSION),
           (''exported_at'', JStr now),
           (''ideas'', JArr (map JObj (getAllIdeas P s)))]"

text \<open>
  \<^verbatim>\<open>runMigrations\<close> reads the column names with \<^verbatim>\<open>PRAGMA table_info(ideas)\<close>. When
  \<^verbatim>\<open>tags\<close> is not among them it adds the column, which every row then reads with the
  default \<^verbatim>\<open>'[]'\<close>, and saves; an exception of \<^verbatim>\<open>save\<close> is caught and logged.
\<close>

definition table_info :: "schema \<Rightarrow> string list" where
  "table_info sch = map column_name (columns_of sch)"

definition runMigrations :: "platform \<Rightarrow> store \<Rightarrow> store" where
  "runMigrations P s =
     (if ''tags'' \<notin> set (table_info (schema s))
      then snd (save P (s\<lparr>schema := Schema_migrated,
                          db := map (\<lambda>r. r\<lparr>tags_col := SText ''[]''\<rparr>) (db s)\<rparr>))
      else s)"

text \<open>
  \<^verbatim>\<open>init()\<close>, given what localStorage holds at start. A stored value that is not the empty
  string is decoded and opened, and \<^verbatim>\<open>runMigrations\<close> runs; otherwise a new database is
  created with the present \<^verbatim>\<open>createSchema\<close> and saved. \<^verbatim>\<open>init\<close> throws when \<^verbatim>\<open>atob\<close> or
  the first \<^verbatim>\<open>save\<close> throws. When no table \<^verbatim>\<open>ideas\<close> can be read from the bytes,
  \<^verbatim>\<open>new SQL.Database\<close> does not throw: the statements of \<^verbatim>\<open>runMigrations\<close> do, the
  exception is caught and logged there, and \<^verbatim>\<open>init\<close> resolves to true with a database on
  which every later statement throws. This outcome is \<open>No_table\<close>; the operations above
  are those of a database that has the table.
\<close>

datatype opened = Opened store | No_table

definition init_new :: "platform \<Rightarrow> string option \<Rightarrow> error + opened" where
  "init_new P savedDb =
     (case save P \<lparr>schema = Schema_current, db = [], storage = savedDb, writes = 0\<rparr> of
        (Inl e, s) \<Rightarrow> Inl e
      | (Inr u, s) \<Rightarrow> Inr (Opened s))"

definition init :: "platform \<Rightarrow> string option \<Rightarrow> error + opened" where
  "init P savedDb =
     (case savedDb of
        None \<Rightarrow> init_new P savedDb
      | Some base64 \<Rightarrow>
          if base64 = [] then init_new P savedDb
          else (case base64ToUint8Array P base64 of
                  None \<Rightarrow> Inl LoadError
                | Some uint8Array \<Rightarrow>
                    (case db_open P uint8Array of
                       None \<Rightarrow> Inr No_table
                     | Some (sch, rows) \<Rightarrow>
                         Inr (Opened (runMigrations P
                                \<lparr>schema = sch, db = rows, storage = savedDb, writes = 0\<rparr>)))))"

section \<open>The form\<close>

text \<open>
  The callers of the store in \<^verbatim>\<open>app.js\<close> (class \<^verbatim>\<open>IdeaApp\<close>): the tag list of the form
  and the submit handler. \<^verbatim>\<open>String.prototype.trim\<close> removes white space at both ends;
  below 256 the white space characters are tab, line feed, vertical tab, form feed,
  carriage return, space and the no-break space.
\<close>

definition is_space :: "char \<Rightarrow> bool" where
  "is_space c = ((of_char c :: nat) \<in> {9, 10, 11, 12, 13, 32, 160})"

definition trim :: "string \<Rightarrow> string" where
  "trim str = rev (dropWhile is_space (rev (dropWhile is_space str)))"

definition addTag :: "string list \<Rightarrow> string \<Rightarrow> string list" where
  "addTag currentTags tag =
     (let trimmedTag = trim tag
      in if trimmedTag = [] then currentTags
         else if trimmedTag \<in> set currentTags then currentTags
         else currentTags @ [trimmedTag])"

definition removeTag :: "string list \<Rightarrow> string \<Rightarrow> string list" where
  "removeTag currentTags tag = filter (\<lambda>t. t \<noteq> tag) currentTags"

text \<open>The remove button of a tag: \<^verbatim>\<open>this.currentTags.splice(index, 1)\<close>.\<close>

definition splice_one :: "string list \<Rightarrow> nat \<Rightarrow> string list" where
  "splice_one currentTags index = take index currentTags @ drop (Suc index) currentTags"

datatype tag_action = AddTag string | RemoveTag string | ClickRemove nat

fun tag_step :: "string list \<Rightarrow> tag_action \<Rightarrow> string list" where
  "tag_step currentTags (AddTag tag) = addTag currentTags tag"
| "tag_step currentTags (RemoveTag tag) = removeTag currentTags tag"
| "tag_step currentTags (ClickRemove index) = splice_one currentTags index"

text \<open>
  \<^verbatim>\<open>handleFormSubmit\<close>, given the values of the fields \<^verbatim>\<open>idea-id\<close>, \<^verbatim>\<open>idea-title\<close> and
  \<^verbatim>\<open>idea-body\<close> and the tag list. It shows field errors and returns without calling the
  store when the trimmed title or body is empty; an exception of the store is caught and
  shown.
\<close>

datatype submit_result =
    FieldErrors bool bool
  | Navigate string
  | SaveFailed

definition handleFormSubmit ::
  "platform \<Rightarrow> (nat \<Rightarrow> 4 word) \<Rightarrow> string \<Rightarrow> store \<Rightarrow> string \<Rightarrow> string \<Rightarrow> string
     \<Rightarrow> string list \<Rightarrow> submit_result \<times> store" where
  "handleFormSubmit P rnd now s form_id form_title form_body currentTags =
     (let title = trim form_title;
          body = trim form_body
      in if title = [] \<or> body = [] then (FieldErrors (title = []) (body = []), s)
         else if form_id \<noteq> []
         then (case updateIdea P now s form_id
                      [(''title'', JStr title), (''body'', JStr body),
                       (''tags'', JArr (map JStr currentTags))] of
                 (Inl e, s') \<Rightarrow> (SaveFailed, s')
               | (Inr ok, s') \<Rightarrow> (Navigate form_id, s'))
         else (case createIdea P rnd now s title body (JArr (map JStr currentTags)) of
                 (Inl e, s') \<Rightarrow> (SaveFailed, s')
               | (Inr newId, s') \<Rightarrow> (Navigate newId, s')))"

section \<open>Sequences of calls\<close>

text \<open>
  A caller of the store makes calls one after the other, each on the state the previous
  one left, whether it returned or threw. \<open>perform\<close> tells whether the call returned.
\<close>

datatype call =
    Create "nat \<Rightarrow> 4 word" string string string jsval
  | Update string string "(string \<times> jsval) list"
  | Delete string

fun perform :: "platform \<Rightarrow> store \<Rightarrow> call \<Rightarrow> bool \<times> store" where
  "perform P s (Create rnd now title body tags) =
     (case createIdea P rnd now s title body tags of
        (Inl e, s') \<Rightarrow> (False, s')
      | (Inr new_id, s') \<Rightarrow> (True, s'))"
| "perform P s (Update now ident updates) =
     (case updateIdea P now s ident updates of
        (Inl e, s') \<Rightarrow> (False, s')
      | (Inr ok, s') \<Rightarrow> (True, s'))"
| "perform P s (Delete ident) =
     (case deleteIdea P s ident of
        (Inl e, s') \<Rightarrow> (False, s')
      | (Inr ok, s') \<Rightarrow> (True, s'))"

definition run :: "platform \<Rightarrow> store \<Rightarrow> call list \<Rightarrow> store" where
  "run P s calls = foldl (\<lambda>s' c. snd (perform P s' c)) s calls"

text \<open>
  The calls that assign nothing to the column \<^verbatim>\<open>id\<close>, under whatever spelling: creates,
  deletes, and the updates whose keys are plain names of columns other than \<^verbatim>\<open>id\<close> (or
  name no column, so that the statement fails).
\<close>

fun leaves_id_column :: "platform \<Rightarrow> schema \<Rightarrow> call \<Rightarrow> bool" where
  "leaves_id_column P sch (Update now ident updates) =
     (case update_statement sch (update_fields P updates) of
        Assigns cols \<Rightarrow> Col_id \<notin> set cols
      | No_such_column \<Rightarrow> True
      | Left_to_sqlite \<Rightarrow> False)"
| "leaves_id_column P sch c = True"

text \<open>Every row has a text as its id, and no two rows the same.\<close>

definition is_text :: "sqlval \<Rightarrow> bool" where
  "is_text v = (case v of SText t \<Rightarrow> True | _ \<Rightarrow> False)"

definition ids_are_distinct_texts :: "idea_row list \<Rightarrow> bool" where
  "ids_are_distinct_texts rows = (list_all is_text (map id_col rows) \<and> distinct (map id_col rows))"

text \<open>
  What the store relies on from sql.js and the browser for one table: the file that
  \<^verbatim>\<open>export\<close> writes is opened as the same table, \<^verbatim>\<open>atob\<close> inverts \<^verbatim>\<open>btoa\<close> on the binary
  string of that file, and the base64 text is not empty.
\<close>

definition file_round_trips :: "platform \<Rightarrow> schema \<Rightarrow> idea_row list \<Rightarrow> bool" where
  "file_round_trips P sch rows =
     (let data = db_export P sch rows;
          binary = map (\<lambda>b. char_of (unat b)) data
      in db_open P data = Some (sch, rows)
         \<and> atob P (btoa P binary) = Some binary
         \<and> btoa P binary \<noteq> [])"


definition idea_tags :: "jsobject \<Rightarrow> jsval option" where
  "idea_tags idea = map_of idea ''tags''"

section \<open>Concrete runs\<close>

text \<open>
  A platform for concrete runs. JSON texts and database files are looked up in finite
  tables: the database file of the table at position \<open>i\<close> of the code book is the byte \<open>i\<close>.
  Its \<^verbatim>\<open>btoa\<close> puts one letter in front of the binary string, its SQLite compiles no
  statement beyond those with plain column names, and localStorage accepts every value.
\<close>

definition json_codebook :: "(jsval \<times> string) list" where
  \<open>json_codebook =
     [(JArr [], ''[]''),
      (JArr [JStr ''x''], ''["x"]''),
      (JArr [JStr ''a'', JStr ''a'', JStr []], ''["a","a",""]'')]\<close>

definition codebook_platform :: "(schema \<times> idea_row list) list \<Rightarrow> platform" where
  "codebook_platform tables =
     \<lparr>JSON_stringify = (\<lambda>v. case map_of json_codebook v of Some t \<Rightarrow> t | None \<Rightarrow> ''null''),
      JSON_parse = (\<lambda>v. case v of
                           JStr t \<Rightarrow> map_of (map (\<lambda>(v, t). (t, v)) json_codebook) t
                         | _ \<Rightarrow> None),
      bind_other = (\<lambda>v. None),
      sqlite_update = (\<lambda>names vals sch rows. None),
      db_export = (\<lambda>sch rows.
                     [word_of_nat (length (takeWhile (\<lambda>t. t \<noteq> (sch, rows)) tables))]),
      db_open = (\<lambda>bytes. case bytes of
                           [b] \<Rightarrow> if unat b < length tables then Some (tables ! unat b) else None
                         | _ \<Rightarrow> None),
      btoa = (\<lambda>binary. CHR ''b'' # binary),
      atob = (\<lambda>base64. case base64 of
                          [] \<Rightarrow> None
                        | c # binary \<Rightarrow> if c = CHR ''b'' then Some binary else None),
      setItem_accepts = (\<lambda>base64. True)\<rparr>"

text \<open>A platform whose localStorage is full: it differs in rejecting every write.\<close>

definition full_platform :: platform where
  "full_platform = (codebook_platform [])\<lparr>setItem_accepts := (\<lambda>base64. False)\<rparr>"

definition zero_draws :: "nat \<Rightarrow> 4 word" where
  "zero_draws k = 0"

definition one_draws :: "nat \<Rightarrow> 4 word" where
  "one_draws k = 1"


definition time1 :: string where
  "time1 = ''2024-01-01T10:00:00.000Z''"

definition time2 :: string where
  "time2 = ''2024-01-01T10:00:01.000Z''"

definition time3 :: string where
  "time3 = ''2024-01-01T10:00:02.000Z''"

definition time4 :: string where
  "time4 = ''2024-01-01T10:00:03.000Z''"

definition empty_store :: store where
  "empty_store = \<lparr>schema = Schema_current, db = [], storage = None, writes = 0\<rparr>"

definition plain_platform :: platform where
  "plain_platform = codebook_platform [(Schema_current, [])]"

text \<open>
  A platform whose SQLite, given a statement that is left to it, finds no row to rewrite
  and leaves the table as it is.
\<close>

definition unmatched_platform :: platform where
  "unmatched_platform = plain_platform\<lparr>sqlite_update := (\<lambda>names vals sch rows. Some rows)\<rparr>"

definition fresh_store :: store where
  "fresh_store =
     \<lparr>schema = Schema_current, db = [], storage = Some [CHR ''b'', CHR 0x00], writes = 1\<rparr>"

definition id_zero :: string where
  "id_zero = ''00000000-0000-4000-8000-000000000000''"

definition id_one :: string where
  "id_one = ''11111111-1111-4111-9111-111111111111''"


definition idea_a :: idea_row where
  "idea_a = inserted_row id_zero ''A'' ''first idea'' ''[]'' time1"

text \<open>
  A row written by the earlier \<^verbatim>\<open>db.js\<close>, in a table without the column \<^verbatim>\<open>tags\<close>, and the
  same row once the column has been added.
\<close>

definition old_idea :: idea_row where
  "old_idea = (inserted_row id_one ''Old'' ''an early idea'' [] time1)\<lparr>tags_col := SNull\<rparr>"

definition old_idea_migrated :: idea_row where
  "old_idea_migrated = old_idea\<lparr>tags_col := SText ''[]''\<rparr>"

definition sample_platform :: platform where
  "sample_platform =
     codebook_platform [(Schema_current, []), (Schema_current, [idea_a]),
                        (Schema_original, [old_idea]), (Schema_migrated, [old_idea_migrated])]"

definition store_a :: store where
  "store_a =
     \<lparr>schema = Schema_current, db = [idea_a], storage = Some [CHR ''b'', CHR 0x01],
      writes = 2\<rparr>"

definition migrated_store :: store where
  "migrated_store =
     \<lparr>schema = Schema_migrated, db = [old_idea_migrated], storage = Some [CHR ''b'', CHR 0x03],
      writes = 1\<rparr>"

definition unmigrated_store :: store where
  "unmigrated_store =
     \<lparr>schema = Schema_original, db = [old_idea], storage = Some [CHR ''b'', CHR 0x02],
      writes = 0\<rparr>"

definition idea_without_tags :: idea_row where
  "idea_without_tags = idea_a\<lparr>tags_col := SNull\<rparr>"

definition idea_with_broken_tags :: idea_row where
  "idea_with_broken_tags =
     inserted_row id_one ''B'' ''second idea'' ''[not json'' time2"

definition damaged_store :: store where
  "damaged_store =
     \<lparr>schema = Schema_current, db = [idea_without_tags, idea_with_broken_tags],
      storage = None, writes = 0\<rparr>"

section \<open>Properties\<close>

subsection \<open>Auxiliary facts\<close>


lemma generateUUID_one_draws: "generateUUID one_draws = id_one"
  by code_simp


lemma save_unfold:
  "save P s =
     (if setItem_accepts P (uint8ArrayToBase64 P (db_export P (schema s) (db s)))
      then (Inr (), s\<lparr>storage := Some (uint8ArrayToBase64 P (db_export P (schema s) (db s))),
                      writes := writes s + 1\<rparr>)
      else (Inl PersistenceError, s\<lparr>writes := writes s + 1\<rparr>))"
  by (simp add: save_def Let_def)

lemma save_and_return_true_unfold:
  "save_and_return_true P s =
     (if setItem_accepts P (uint8ArrayToBase64 P (db_export P (schema s) (db s)))
      then (Inr True, s\<lparr>storage := Some (uint8ArrayToBase64 P (db_export P (schema s) (db s))),
                        writes := writes s + 1\<rparr>)
      else (Inl PersistenceError, s\<lparr>writes := writes s + 1\<rparr>))"
  by (simp add: save_and_return_true_def save_unfold)

lemma statement_tags_current:
  "update_statement Schema_current [''tags'', ''updated_at''] = Assigns [Col_tags, Col_updated_at]"
  by code_simp

lemma statement_tags_migrated:
  "update_statement Schema_migrated [''tags'', ''updated_at''] = Assigns [Col_tags, Col_updated_at]"
  by code_simp

lemma statement_tags_original:
  "update_statement Schema_original [''tags'', ''updated_at''] = No_such_column"
  by code_simp





lemma map_of_set_prop: "map_of (set_prop k v ps) k' = (if k' = k then Some v else map_of ps k')"
  by (induction ps) auto

lemma keys_set_prop: "k \<in> set (map fst ps) \<Longrightarrow> map fst (set_prop k v ps) = map fst ps"
  by (induction ps) force+

lemma keys_set_prop_new: "k \<notin> set (map fst ps) \<Longrightarrow> map fst (set_prop k v ps) = map fst ps @ [k]"
  by (induction ps) auto

lemma db_after_createIdea:
  assumes "has_tags_column (schema s)" "SText (generateUUID rnd) \<notin> set (map id_col (db s))"
  shows "db (snd (createIdea P rnd now s title body tags))
          = db s @ [inserted_row (generateUUID rnd) title body (JSON_stringify P tags) now]"
  using assms by (simp add: createIdea_def save_unfold Let_def)

lemma schema_after_createIdea:
  "schema (snd (createIdea P rnd now s title body tags)) = schema s"
  by (simp add: createIdea_def save_unfold Let_def)

lemma schema_after_updateIdea:
  "schema (snd (updateIdea P now s ident updates)) = schema s"
  by (simp add: updateIdea_def save_and_return_true_unfold Let_def
           split: statement.splits option.splits)

lemma schema_after_deleteIdea:
  "schema (snd (deleteIdea P s ident)) = schema s"
  by (simp add: deleteIdea_def save_and_return_true_unfold)

lemma snd_perform_Create:
  "snd (perform P s (Create rnd now title body tags)) = snd (createIdea P rnd now s title body tags)"
  by (simp split: prod.splits sum.splits)

lemma snd_perform_Update:
  "snd (perform P s (Update now ident updates)) = snd (updateIdea P now s ident updates)"
  by (simp split: prod.splits sum.splits)

lemma snd_perform_Delete:
  "snd (perform P s (Delete ident)) = snd (deleteIdea P s ident)"
  by (simp split: prod.splits sum.splits)

lemma schema_after_perform: "schema (snd (perform P s c)) = schema s"
  by (cases c)
     (simp_all only: snd_perform_Create snd_perform_Update snd_perform_Delete
        schema_after_createIdea schema_after_updateIdea schema_after_deleteIdea)

lemma schema_after_run: "schema (run P s calls) = schema s"
  unfolding run_def
  by (induction calls arbitrary: s) (simp_all add: schema_after_perform)

subsection \<open>Validation of title and body\<close>

text \<open>
  C1. The claim: for every title and body that are empty after trimming, create fails with
  a ValidationError, leaves the collection alone and writes nothing. \<^verbatim>\<open>createIdea\<close> has no
  such check: called with an empty title, or with an empty body, on the empty store it
  returns the new id, the table has a row and \<^verbatim>\<open>setItem\<close> has been called.
\<close>

theorem createIdea_empty_input_counterexample:
  "fst (createIdea plain_platform zero_draws time1 empty_store [] ''body'' (JArr [])) = Inr id_zero
   \<and> db (snd (createIdea plain_platform zero_draws time1 empty_store [] ''body'' (JArr [])))
     = [inserted_row id_zero [] ''body'' ''[]'' time1]
   \<and> writes (snd (createIdea plain_platform zero_draws time1 empty_store [] ''body'' (JArr []))) = 1
   \<and> fst (createIdea plain_platform zero_draws time1 empty_store ''title'' [] (JArr [])) = Inr id_zero
   \<and> db (snd (createIdea plain_platform zero_draws time1 empty_store ''title'' [] (JArr [])))
     = [inserted_row id_zero ''title'' [] ''[]'' time1]
   \<and> writes (snd (createIdea plain_platform zero_draws time1 empty_store ''title'' [] (JArr []))) = 1"
  by code_simp

text \<open>
  C1, amended. The check is made by the form: when the title or the body is empty after
  trimming, \<^verbatim>\<open>handleFormSubmit\<close> reports the field errors and returns without calling the
  store, so neither the table nor localStorage changes and nothing is written.
  \<^verbatim>\<open>createIdea\<close> itself accepts every title and body. On a table with the column \<^verbatim>\<open>tags\<close>
  and without the generated id, it appends the row and calls \<^verbatim>\<open>setItem\<close> once with the
  encoding of the new table: when the write is accepted it returns the id and the entry
  holds that encoding; when it is rejected it throws, the row staying in the table.
\<close>

theorem form_validates_createIdea_does_not:
  "(trim form_title = [] \<or> trim form_body = [] \<longrightarrow>
      handleFormSubmit P rnd now s form_id form_title form_body currentTags
        = (FieldErrors (trim form_title = []) (trim form_body = []), s))
   \<and> (has_tags_column (schema s) \<and> SText (generateUUID rnd) \<notin> set (map id_col (db s)) \<longrightarrow>
        createIdea P rnd now s title body tags
          = (if setItem_accepts P
                  (uint8ArrayToBase64 P
                     (db_export P (schema s)
                        (db s @ [inserted_row (generateUUID rnd) title body
                                   (JSON_stringify P tags) now])))
             then (Inr (generateUUID rnd),
                   s\<lparr>db := db s @ [inserted_row (generateUUID rnd) title body
                                      (JSON_stringify P tags) now],
                     storage := Some (uint8ArrayToBase64 P
                        (db_export P (schema s)
                           (db s @ [inserted_row (generateUUID rnd) title body
                                      (JSON_stringify P tags) now]))),
                     writes := writes s + 1\<rparr>)
             else (Inl PersistenceError,
                   s\<lparr>db := db s @ [inserted_row (generateUUID rnd) title body
                                      (JSON_stringify P tags) now],
                     writes := writes s + 1\<rparr>)))"
  by (simp add: handleFormSubmit_def createIdea_def save_unfold Let_def)

theorem form_validates_createIdea_does_not_witness:
  "trim ''  '' = []
   \<and> handleFormSubmit plain_platform zero_draws time1 empty_store [] ''  '' ''body'' []
       = (FieldErrors True False, empty_store)
   \<and> has_tags_column (schema empty_store)
   \<and> SText (generateUUID zero_draws) \<notin> set (map id_col (db empty_store))
   \<and> createIdea plain_platform zero_draws time1 empty_store [] [] (JArr [])
       = (Inr id_zero,
          \<lparr>schema = Schema_current, db = [inserted_row id_zero [] [] ''[]'' time1],
           storage = Some [CHR ''b'', CHR 0x01], writes = 1\<rparr>)
   \<and> createIdea full_platform zero_draws time1 empty_store [] [] (JArr [])
       = (Inl PersistenceError,
          \<lparr>schema = Schema_current, db = [inserted_row id_zero [] [] ''[]'' time1],
           storage = None, writes = 1\<rparr>)"
proof -
  have t: "trim ''  '' = []"
    by code_simp
  have h: "has_tags_column (schema empty_store)"
    by code_simp
  have f: "SText (generateUUID zero_draws) \<notin> set (map id_col (db empty_store))"
    by code_simp
  have acc: "setItem_accepts plain_platform
               (uint8ArrayToBase64 plain_platform
                  (db_export plain_platform (schema empty_store)
                     (db empty_store @ [inserted_row (generateUUID zero_draws) [] []
                                          (JSON_stringify plain_platform (JArr [])) time1])))"
    by code_simp
  have rej: "\<not> setItem_accepts full_platform
               (uint8ArrayToBase64 full_platform
                  (db_export full_platform (schema empty_store)
                     (db empty_store @ [inserted_row (generateUUID zero_draws) [] []
                                          (JSON_stringify full_platform (JArr [])) time1])))"
    by code_simp
  have v1: "(Inr (generateUUID zero_draws) :: error + string,
             empty_store\<lparr>db := db empty_store @ [inserted_row (generateUUID zero_draws) [] []
                                          (JSON_stringify plain_platform (JArr [])) time1],
               storage := Some (uint8ArrayToBase64 plain_platform
                  (db_export plain_platform (schema empty_store)
                     (db empty_store @ [inserted_row (generateUUID zero_draws) [] []
                                          (JSON_stringify plain_platform (JArr [])) time1]))),
               writes := writes empty_store + 1\<rparr>)
            = (Inr id_zero,
               \<lparr>schema = Schema_current, db = [inserted_row id_zero [] [] ''[]'' time1],
                storage = Some [CHR ''b'', CHR 0x01], writes = 1\<rparr>)"
    by code_simp
  have v2: "(Inl PersistenceError :: error + string,
             empty_store\<lparr>db := db empty_store @ [inserted_row (generateUUID zero_draws) [] []
                                          (JSON_stringify full_platform (JArr [])) time1],
               writes := writes empty_store + 1\<rparr>)
            = (Inl PersistenceError,
               \<lparr>schema = Schema_current, db = [inserted_row id_zero [] [] ''[]'' time1],
                storage = None, writes = 1\<rparr>)"
    by code_simp
  have c1: "createIdea plain_platform zero_draws time1 empty_store [] [] (JArr [])
       = (Inr id_zero,
          \<lparr>schema = Schema_current, db = [inserted_row id_zero [] [] ''[]'' time1],
           storage = Some [CHR ''b'', CHR 0x01], writes = 1\<rparr>)"
    using form_validates_createIdea_does_not
            [where s = empty_store and rnd = zero_draws and P = plain_platform and now = time1
               and title = "[]" and body = "[]" and tags = "JArr []"]
          h f acc
    by (simp only: v1 simp_thms if_True)
  have c2: "createIdea full_platform zero_draws time1 empty_store [] [] (JArr [])
       = (Inl PersistenceError,
          \<lparr>schema = Schema_current, db = [inserted_row id_zero [] [] ''[]'' time1],
           storage = None, writes = 1\<rparr>)"
    using form_validates_createIdea_does_not
            [where s = empty_store and rnd = zero_draws and P = full_platform and now = time1
               and title = "[]" and body = "[]" and tags = "JArr []"]
          h f rej
    by (simp only: v2 simp_thms if_False)
  have form: "handleFormSubmit plain_platform zero_draws time1 empty_store [] ''  '' ''body'' []
       = (FieldErrors True False, empty_store)"
    using form_validates_createIdea_does_not
            [where form_title = "''  ''" and form_body = "''body''" and P = plain_platform
               and rnd = zero_draws and now = time1 and s = empty_store and form_id = "[]"
               and currentTags = "[]"]
          t
    by (simp add: trim_def is_space_def)
  show ?thesis
    using t form h f c1 c2 by simp
qed

subsection \<open>Update and delete of an id that is not in the table\<close>

text \<open>
  C2. The claim: for an id that is not in the collection, update and delete return a
  not-found result and no durable write occurs. On the store that \<^verbatim>\<open>init\<close> makes from an
  empty localStorage, \<^verbatim>\<open>updateIdea("nonexistent-id", {title: "x"})\<close> and
  \<^verbatim>\<open>deleteIdea("nonexistent-id")\<close> both return \<^verbatim>\<open>true\<close>, and \<^verbatim>\<open>setItem\<close> has been
  called once more.
\<close>

theorem missing_id_counterexample:
  "init plain_platform None = Inr (Opened fresh_store)
   \<and> updateIdea plain_platform time1 fresh_store ''nonexistent-id'' [(''title'', JStr ''x'')]
       = (Inr True, fresh_store\<lparr>writes := 2\<rparr>)
   \<and> deleteIdea plain_platform fresh_store ''nonexistent-id''
       = (Inr True, fresh_store\<lparr>writes := 2\<rparr>)"
  by code_simp

text \<open>
  C2, amended. Neither call has a not-found result. For an id that is not in the table,
  \<^verbatim>\<open>deleteIdea\<close> leaves the table as it is and calls \<^verbatim>\<open>save\<close>: it returns \<^verbatim>\<open>true\<close> with the
  localStorage entry rewritten to the encoding of the unchanged table, or throws when the
  write is rejected. \<^verbatim>\<open>updateIdea\<close> with plain column names as keys throws, changing
  nothing, when a key is no column of the table or a value cannot be bound, and does what
  \<^verbatim>\<open>deleteIdea\<close> does otherwise. With any other key it throws, changing nothing, when
  SQLite rejects the statement, and otherwise saves the table that SQLite leaves and
  returns \<^verbatim>\<open>true\<close>.
\<close>

theorem missing_id_is_a_save:
  assumes absent: "SText ident \<notin> set (map id_col (db s))"
  shows "deleteIdea P s ident = save_and_return_true P s
       \<and> (setItem_accepts P (uint8ArrayToBase64 P (db_export P (schema s) (db s))) \<longrightarrow>
            save_and_return_true P s
              = (Inr True,
                 s\<lparr>storage := Some (uint8ArrayToBase64 P (db_export P (schema s) (db s))),
                   writes := writes s + 1\<rparr>))
       \<and> (\<not> setItem_accepts P (uint8ArrayToBase64 P (db_export P (schema s) (db s))) \<longrightarrow>
            save_and_return_true P s = (Inl PersistenceError, s\<lparr>writes := writes s + 1\<rparr>))
       \<and> (update_statement (schema s) (update_fields P updates) = No_such_column \<longrightarrow>
            updateIdea P now s ident updates = (Inl SqlError, s))
       \<and> ((\<exists>cols. update_statement (schema s) (update_fields P updates) = Assigns cols)
            \<and> those (map (bindValue P) (update_values P now updates)) = None \<longrightarrow>
            updateIdea P now s ident updates = (Inl BindError, s))
       \<and> ((\<exists>cols. update_statement (schema s) (update_fields P updates) = Assigns cols)
            \<and> those (map (bindValue P) (update_values P now updates)) \<noteq> None \<longrightarrow>
            updateIdea P now s ident updates = save_and_return_true P s)
       \<and> (update_statement (schema s) (update_fields P updates) = Left_to_sqlite \<longrightarrow>
            updateIdea P now s ident updates
              = (case sqlite_update P (update_fields P updates)
                        (update_values P now updates @ [JStr ident]) (schema s) (db s) of
                   None \<Rightarrow> (Inl SqlError, s)
                 | Some rows' \<Rightarrow> save_and_return_true P (s\<lparr>db := rows'\<rparr>)))"
proof -
  have others: "\<forall>r\<in>set (db s). id_col r \<noteq> SText ident"
    using absent by force
  have keep: "filter (\<lambda>r. id_col r \<noteq> SText ident) (db s) = db s"
    using others by (simp add: filter_id_conv)
  have none: "filter (\<lambda>r. id_col r = SText ident) (db s) = []"
    using others by (simp add: filter_empty_conv)
  have same: "map (\<lambda>r. if id_col r = SText ident then f r else r) (db s) = db s" for f
    using others by (simp add: map_idI)
  have del: "deleteIdea P s ident = save_and_return_true P s"
    by (simp add: deleteIdea_def keep)
  have upd: "updateIdea P now s ident updates = save_and_return_true P s"
    if "update_statement (schema s) (update_fields P updates) = Assigns cols"
       "those (map (bindValue P) (update_values P now updates)) \<noteq> None" for cols
    using that by (auto simp: updateIdea_def none same Let_def)
  show ?thesis
    using upd by (auto simp: del save_and_return_true_unfold updateIdea_def)
qed

theorem missing_id_is_a_save_witness:
  "SText ''nonexistent-id'' \<notin> set (map id_col (db fresh_store))
   \<and> deleteIdea plain_platform fresh_store ''nonexistent-id''
       = (Inr True, fresh_store\<lparr>writes := 2\<rparr>)
   \<and> update_statement (schema fresh_store) (update_fields plain_platform [(''title'', JStr ''x'')])
       = Assigns [Col_title, Col_updated_at]
   \<and> updateIdea plain_platform time1 fresh_store ''nonexistent-id'' [(''title'', JStr ''x'')]
       = (Inr True, fresh_store\<lparr>writes := 2\<rparr>)
   \<and> update_statement (schema fresh_store) (update_fields plain_platform [(''colour'', JStr ''x'')])
       = No_such_column
   \<and> updateIdea plain_platform time1 fresh_store ''nonexistent-id'' [(''colour'', JStr ''x'')]
       = (Inl SqlError, fresh_store)
   \<and> updateIdea plain_platform time1 fresh_store ''nonexistent-id'' [(''title'', JNum 7)]
       = (Inl BindError, fresh_store)
   \<and> update_statement (schema fresh_store)
        (update_fields unmatched_platform [(''rowid'', JStr ''7'')]) = Left_to_sqlite
   \<and> updateIdea unmatched_platform time1 fresh_store ''nonexistent-id'' [(''rowid'', JStr ''7'')]
       = (Inr True, fresh_store\<lparr>writes := 2\<rparr>)
   \<and> deleteIdea full_platform fresh_store ''nonexistent-id''
       = (Inl PersistenceError, fresh_store\<lparr>writes := 2\<rparr>)"
proof -
  have absent: "SText ''nonexistent-id'' \<notin> set (map id_col (db fresh_store))"
    by code_simp
  have acc: "setItem_accepts plain_platform
        (uint8ArrayToBase64 plain_platform
           (db_export plain_platform (schema fresh_store) (db fresh_store)))"
    by code_simp
  have acc': "setItem_accepts unmatched_platform
        (uint8ArrayToBase64 unmatched_platform
           (db_export unmatched_platform (schema fresh_store) (db fresh_store)))"
    by code_simp
  have rej: "\<not> setItem_accepts full_platform
        (uint8ArrayToBase64 full_platform
           (db_export full_platform (schema fresh_store) (db fresh_store)))"
    by code_simp
  have saved: "fresh_store\<lparr>storage := Some (uint8ArrayToBase64 plain_platform
                    (db_export plain_platform (schema fresh_store) (db fresh_store))),
                 writes := Suc (writes fresh_store)\<rparr> = fresh_store\<lparr>writes := 2\<rparr>"
    by code_simp
  have saved': "fresh_store\<lparr>storage := Some (uint8ArrayToBase64 unmatched_platform
                    (db_export unmatched_platform (schema fresh_store) (db fresh_store))),
                 writes := Suc (writes fresh_store)\<rparr> = fresh_store\<lparr>writes := 2\<rparr>"
    by code_simp
  have failed: "fresh_store\<lparr>writes := Suc (writes fresh_store)\<rparr> = fresh_store\<lparr>writes := 2\<rparr>"
    by code_simp
  have st_title: "update_statement (schema fresh_store)
        (update_fields plain_platform [(''title'', JStr ''x'')]) = Assigns [Col_title, Col_updated_at]"
    by code_simp
  have st_title': "update_statement (schema fresh_store)
        (update_fields plain_platform [(''title'', JNum 7)]) = Assigns [Col_title, Col_updated_at]"
    by code_simp
  have st_colour: "update_statement (schema fresh_store)
        (update_fields plain_platform [(''colour'', JStr ''x'')]) = No_such_column"
    by code_simp
  have st_rowid: "update_statement (schema fresh_store)
        (update_fields unmatched_platform [(''rowid'', JStr ''7'')]) = Left_to_sqlite"
    by code_simp
  have bound: "those (map (bindValue plain_platform)
                   (update_values plain_platform time1 [(''title'', JStr ''x'')])) \<noteq> None"
    by code_simp
  have unbound: "those (map (bindValue plain_platform)
                   (update_values plain_platform time1 [(''title'', JNum 7)])) = None"
    by code_simp
  have left: "sqlite_update unmatched_platform
                (update_fields unmatched_platform [(''rowid'', JStr ''7'')])
                (update_values unmatched_platform time1 [(''rowid'', JStr ''7'')]
                   @ [JStr ''nonexistent-id''])
                (schema fresh_store) (db fresh_store) = Some (db fresh_store)"
    by code_simp
  have same: "fresh_store\<lparr>db := db fresh_store\<rparr> = fresh_store"
    by simp
  note inst = missing_id_is_a_save [OF absent]
  have d1: "deleteIdea plain_platform fresh_store ''nonexistent-id''
              = (Inr True, fresh_store\<lparr>writes := 2\<rparr>)"
    using inst [of plain_platform "[]" time1] acc by (simp add: saved)
  have d2: "deleteIdea full_platform fresh_store ''nonexistent-id''
              = (Inl PersistenceError, fresh_store\<lparr>writes := 2\<rparr>)"
    using inst [of full_platform "[]" time1] rej by (simp add: failed)
  have u1: "updateIdea plain_platform time1 fresh_store ''nonexistent-id'' [(''title'', JStr ''x'')]
              = (Inr True, fresh_store\<lparr>writes := 2\<rparr>)"
    using inst [of plain_platform "[(''title'', JStr ''x'')]" time1] acc st_title bound
    by (simp add: saved)
  have u2: "updateIdea plain_platform time1 fresh_store ''nonexistent-id'' [(''colour'', JStr ''x'')]
              = (Inl SqlError, fresh_store)"
    using inst [of plain_platform "[(''colour'', JStr ''x'')]" time1] st_colour by simp
  have u3: "updateIdea plain_platform time1 fresh_store ''nonexistent-id'' [(''title'', JNum 7)]
              = (Inl BindError, fresh_store)"
    using inst [of plain_platform "[(''title'', JNum 7)]" time1] st_title' unbound by simp
  have u4: "updateIdea unmatched_platform time1 fresh_store ''nonexistent-id''
              [(''rowid'', JStr ''7'')] = (Inr True, fresh_store\<lparr>writes := 2\<rparr>)"
    using inst [of unmatched_platform "[(''rowid'', JStr ''7'')]" time1] acc' st_rowid left
    by (simp add: same saved')
  show ?thesis
    using absent d1 d2 u1 u2 u3 u4 st_title st_colour st_rowid by simp
qed

subsection \<open>Tags\<close>

text \<open>
  C3. The claim: after a successful create or update the tags of a record hold no empty
  string and no duplicate, and create removes duplicates from the tags it is given.
  \<^verbatim>\<open>createIdea\<close> stores what it is given: created with the tags \<^verbatim>\<open>["a", "a", ""]\<close>, the
  record is read back by \<^verbatim>\<open>getIdea\<close> with the same three tags.
\<close>

theorem stored_tags_counterexample:
  "fst (createIdea plain_platform zero_draws time1 empty_store ''t'' ''b''
          (JArr [JStr ''a'', JStr ''a'', JStr []]))
     = Inr id_zero
   \<and> map_option idea_tags
        (getIdea plain_platform
           (snd (createIdea plain_platform zero_draws time1 empty_store ''t'' ''b''
                   (JArr [JStr ''a'', JStr ''a'', JStr []])))
           id_zero)
     = Some (Some (JArr [JStr ''a'', JStr ''a'', JStr []]))"
  by code_simp

lemma tags_of_getAsObject:
  "has_tags_column sch \<Longrightarrow> map_of (getAsObject sch r) ''tags'' = Some (to_js (tags_col r))"
  by (cases sch) (simp_all add: getAsObject_def has_tags_column_def)

lemma no_tags_of_getAsObject:
  "\<not> has_tags_column sch \<Longrightarrow> map_of (getAsObject sch r) ''tags'' = None"
  by (cases sch) (simp_all add: getAsObject_def has_tags_column_def)

lemma addTag_keeps:
  assumes "distinct ts" "[] \<notin> set ts"
  shows "distinct (addTag ts tag) \<and> [] \<notin> set (addTag ts tag)"
  using assms by (simp add: addTag_def Let_def)

lemma removeTag_keeps:
  assumes "distinct ts" "[] \<notin> set ts"
  shows "distinct (removeTag ts tag) \<and> [] \<notin> set (removeTag ts tag)"
  using assms by (simp add: removeTag_def)

lemma splice_one_keeps:
  assumes "distinct ts" "[] \<notin> set ts"
  shows "distinct (splice_one ts i) \<and> [] \<notin> set (splice_one ts i)"
proof -
  have "set (take i ts) \<inter> set (drop (Suc i) ts) = {}"
    using assms(1) by (simp add: set_take_disj_set_drop_if_distinct)
  moreover have "[] \<notin> set (take i ts)" "[] \<notin> set (drop (Suc i) ts)"
    using assms(2) by (auto dest: in_set_takeD in_set_dropD)
  ultimately show ?thesis
    using assms(1) by (simp add: splice_one_def)
qed

lemma tag_step_keeps:
  assumes "distinct ts" "[] \<notin> set ts"
  shows "distinct (tag_step ts a) \<and> [] \<notin> set (tag_step ts a)"
  using assms by (cases a) (simp_all add: addTag_keeps removeTag_keeps splice_one_keeps)

lemma tag_steps_keep:
  "distinct ts \<Longrightarrow> [] \<notin> set ts \<Longrightarrow>
     distinct (foldl tag_step ts actions) \<and> [] \<notin> set (foldl tag_step ts actions)"
proof (induction actions arbitrary: ts)
  case Nil
  then show ?case by simp
next
  case (Cons a actions)
  then show ?case using tag_step_keeps [of ts a] by simp
qed

lemma update_fields_tags: "update_fields P [(''tags'', tags)] = [''tags'', ''updated_at'']"
  by (simp add: update_fields_def)

lemma update_values_tags:
  "update_values P now [(''tags'', tags)] = [JStr (JSON_stringify P tags), JStr now]"
  by (simp add: update_values_def)

lemma getIdea_after_createIdea:
  assumes tags: "has_tags_column (schema s)"
    and fresh: "SText (generateUUID rnd) \<notin> set (map id_col (db s))"
  shows "getIdea P (snd (createIdea P rnd now s title body tags)) (generateUUID rnd)
           = Some (parse_tags P (getAsObject (schema s)
                (inserted_row (generateUUID rnd) title body (JSON_stringify P tags) now)))"
proof -
  have others: "\<forall>r\<in>set (db s). id_col r \<noteq> SText (generateUUID rnd)"
    using fresh by force
  have none: "filter (\<lambda>r. id_col r = SText (generateUUID rnd)) (db s) = []"
    using others by (simp add: filter_empty_conv)
  show ?thesis
    by (simp add: getIdea_def db_after_createIdea [OF tags fresh] schema_after_createIdea none
          inserted_row_def)
qed

lemma tags_of_parse_tags:
  assumes "map_of row ''tags'' = Some t" "truthy t" "JSON_parse P t = Some parsed"
  shows "map_of (parse_tags P row) ''tags'' = Some parsed"
  using assms by (simp add: parse_tags_def map_of_set_prop)

lemma tags_after_updateIdea:
  assumes ok: "fst (updateIdea P now s ident [(''tags'', tags)]) = Inr True"
    and r: "r \<in> set (db (snd (updateIdea P now s ident [(''tags'', tags)])))"
    and hit: "id_col r = SText ident"
  shows "tags_col r = SText (JSON_stringify P tags)"
proof -
  let ?assign = "assign_columns [(Col_tags, SText (JSON_stringify P tags)), (Col_updated_at, SText now)]"
  let ?rows = "map (\<lambda>r. if id_col r = SText ident then ?assign r else r) (db s)"
  have st: "update_statement (schema s) [''tags'', ''updated_at'']
              = Assigns [Col_tags, Col_updated_at]"
  proof (cases "schema s")
    case Schema_current
    then show ?thesis by (simp only: statement_tags_current)
  next
    case Schema_original
    then have "fst (updateIdea P now s ident [(''tags'', tags)]) = Inl SqlError"
      by (simp add: updateIdea_def update_fields_tags statement_tags_original)
    then show ?thesis using ok by simp
  next
    case Schema_migrated
    then show ?thesis by (simp only: statement_tags_migrated)
  qed
  have "db (snd (updateIdea P now s ident [(''tags'', tags)])) = ?rows"
    using ok
    by (auto simp: updateIdea_def update_fields_tags update_values_tags st Let_def
             save_and_return_true_unfold split: if_splits)
  then obtain r0 where "r0 \<in> set (db s)"
      and "r = (if id_col r0 = SText ident then ?assign r0 else r0)"
    using r by auto
  then show ?thesis
    using hit by (cases "id_col r0 = SText ident") (simp_all add: assign_columns_def)
qed

text \<open>
  C3, amended. The store keeps the tags as they are given. A record created with some
  tags, in a table with the column \<^verbatim>\<open>tags\<close>, is read back with the same sequence (when
  \<^verbatim>\<open>JSON.parse\<close> inverts \<^verbatim>\<open>JSON.stringify\<close> on it), and a successful
  \<^verbatim>\<open>updateIdea(id, {tags})\<close> leaves the JSON text of the given tags in every row of that
  id. Empty and duplicate tags are kept out by the form: \<^verbatim>\<open>addTag\<close> trims, drops an empty
  tag and drops a tag already in the list, so a tag list without empty string or duplicate
  stays so under \<^verbatim>\<open>addTag\<close>, \<^verbatim>\<open>removeTag\<close> and the remove buttons; these lists are the ones
  \<^verbatim>\<open>handleFormSubmit\<close> passes to the store.
\<close>

theorem tags_stored_as_given:
  "(has_tags_column (schema s) \<and> SText (generateUUID rnd) \<notin> set (map id_col (db s))
      \<and> JSON_stringify P tags \<noteq> []
      \<and> JSON_parse P (JStr (JSON_stringify P tags)) = Some tags \<longrightarrow>
      (\<exists>idea. getIdea P (snd (createIdea P rnd now s title body tags)) (generateUUID rnd)
                = Some idea
              \<and> map_of idea ''tags'' = Some tags))
   \<and> (fst (updateIdea P now s ident [(''tags'', tags)]) = Inr True \<longrightarrow>
        (\<forall>r\<in>set (db (snd (updateIdea P now s ident [(''tags'', tags)]))).
           id_col r = SText ident \<longrightarrow> tags_col r = SText (JSON_stringify P tags)))
   \<and> (distinct currentTags \<and> [] \<notin> set currentTags \<longrightarrow>
        distinct (foldl tag_step currentTags actions)
        \<and> [] \<notin> set (foldl tag_step currentTags actions))"
proof (intro conjI impI)
  assume h: "has_tags_column (schema s) \<and> SText (generateUUID rnd) \<notin> set (map id_col (db s))
      \<and> JSON_stringify P tags \<noteq> []
      \<and> JSON_parse P (JStr (JSON_stringify P tags)) = Some tags"
  let ?row = "inserted_row (generateUUID rnd) title body (JSON_stringify P tags) now"
  have "map_of (getAsObject (schema s) ?row) ''tags'' = Some (JStr (JSON_stringify P tags))"
    using h by (simp add: tags_of_getAsObject inserted_row_def)
  then have "map_of (parse_tags P (getAsObject (schema s) ?row)) ''tags'' = Some tags"
    using h by (auto intro!: tags_of_parse_tags)
  then show "\<exists>idea. getIdea P (snd (createIdea P rnd now s title body tags)) (generateUUID rnd)
                = Some idea \<and> map_of idea ''tags'' = Some tags"
    using h by (simp add: getIdea_after_createIdea)
next
  assume "fst (updateIdea P now s ident [(''tags'', tags)]) = Inr True"
  then show "\<forall>r\<in>set (db (snd (updateIdea P now s ident [(''tags'', tags)]))).
           id_col r = SText ident \<longrightarrow> tags_col r = SText (JSON_stringify P tags)"
    using tags_after_updateIdea by blast
next
  assume "distinct currentTags \<and> [] \<notin> set currentTags"
  then show "distinct (foldl tag_step currentTags actions)"
    using tag_steps_keep by blast
next
  assume "distinct currentTags \<and> [] \<notin> set currentTags"
  then show "[] \<notin> set (foldl tag_step currentTags actions)"
    using tag_steps_keep by blast
qed

theorem tags_stored_as_given_witness:
  \<open>map_option idea_tags
     (getIdea plain_platform
        (snd (createIdea plain_platform one_draws time2 store_a ''B'' ''b'' (JArr [JStr ''x''])))
        id_one)
     = Some (Some (JArr [JStr ''x'']))
   \<and> fst (updateIdea plain_platform time2 store_a id_zero [(''tags'', JArr [JStr ''x''])]) = Inr True
   \<and> map tags_col (db (snd (updateIdea plain_platform time2 store_a id_zero
                               [(''tags'', JArr [JStr ''x''])])))
       = [SText ''["x"]'']
   \<and> foldl tag_step [] [AddTag '' x '', AddTag ''x'', AddTag ''  '', AddTag ''y'', ClickRemove 0]
       = [''y'']\<close>
proof -
  have fresh: "has_tags_column (schema store_a)
      \<and> SText (generateUUID one_draws) \<notin> set (map id_col (db store_a))
      \<and> JSON_stringify plain_platform (JArr [JStr ''x'']) \<noteq> []
      \<and> JSON_parse plain_platform (JStr (JSON_stringify plain_platform (JArr [JStr ''x''])))
          = Some (JArr [JStr ''x''])"
    by code_simp
  have ok: "fst (updateIdea plain_platform time2 store_a id_zero [(''tags'', JArr [JStr ''x''])])
              = Inr True"
    by code_simp
  have rows: "map id_col (db (snd (updateIdea plain_platform time2 store_a id_zero
                               [(''tags'', JArr [JStr ''x''])]))) = [SText id_zero]"
    by code_simp
  have len: "length (db (snd (updateIdea plain_platform time2 store_a id_zero
                               [(''tags'', JArr [JStr ''x''])]))) = 1"
    by code_simp
  have str: \<open>JSON_stringify plain_platform (JArr [JStr ''x'']) = ''["x"]''\<close>
    by code_simp
  have tags: "foldl tag_step [] [AddTag '' x '', AddTag ''x'', AddTag ''  '', AddTag ''y'', ClickRemove 0]
       = [''y'']"
    by code_simp
  show ?thesis
    using tags_stored_as_given [of store_a one_draws plain_platform "JArr [JStr ''x'']" time2
        "''B''" "''b''" id_zero "[]"
        "[AddTag '' x '', AddTag ''x'', AddTag ''  '', AddTag ''y'', ClickRemove 0]"]
      fresh ok rows len tags
    apply (simp add: generateUUID_one_draws str idea_tags_def)
    apply (cases "db (snd (updateIdea plain_platform time2 store_a id_zero
                               [(''tags'', JArr [JStr ''x''])]))")
     apply auto
    done
qed

subsection \<open>Persistence\<close>

lemma byte_of_char_code: "word_of_nat (unat b mod 256) = (b :: 8 word)"
proof -
  have "unat b < 256"
    using unsigned_less [of b] by simp
  then show ?thesis by simp
qed

lemma bytes_of_binary_string:
  "map ((\<lambda>c. word_of_nat (of_char c)) \<circ> (\<lambda>b. char_of (unat b))) (bytes :: 8 word list) = bytes"
  by (induction bytes) (simp_all add: byte_of_char_code)

lemma runMigrations_with_tags: "has_tags_column (schema s) \<Longrightarrow> runMigrations P s = s"
  by (cases "schema s") (simp_all add: runMigrations_def table_info_def has_tags_column_def)

lemma runMigrations_without_tags:
  "\<not> has_tags_column (schema s) \<Longrightarrow>
     runMigrations P s
       = snd (save P (s\<lparr>schema := Schema_migrated,
                        db := map (\<lambda>r. r\<lparr>tags_col := SText ''[]''\<rparr>) (db s)\<rparr>))"
  by (cases "schema s") (simp_all add: runMigrations_def table_info_def has_tags_column_def)

lemma has_tags_after_runMigrations: "has_tags_column (schema (runMigrations P s))"
  by (cases "schema s")
     (simp_all add: runMigrations_def table_info_def has_tags_column_def save_unfold)

lemma init_of_encoding:
  assumes "file_round_trips P sch rows"
  shows "init P (Some (uint8ArrayToBase64 P (db_export P sch rows)))
           = Inr (Opened (runMigrations P
                    \<lparr>schema = sch, db = rows,
                     storage = Some (uint8ArrayToBase64 P (db_export P sch rows)), writes = 0\<rparr>))"
  using assms
  by (simp add: file_round_trips_def init_def uint8ArrayToBase64_def base64ToUint8Array_def
        bytes_of_binary_string Let_def)

lemma has_tags_after_init_new: "init_new P savedDb = Inr (Opened s) \<Longrightarrow> has_tags_column (schema s)"
  by (auto simp: init_new_def save_unfold has_tags_column_def split: if_splits)

lemma has_tags_after_init: "init P savedDb = Inr (Opened s) \<Longrightarrow> has_tags_column (schema s)"
  by (auto simp: init_def has_tags_after_init_new has_tags_after_runMigrations
           split: option.splits if_splits)

lemma createIdea_persists:
  assumes "fst (createIdea P rnd now s title body tags) = Inr x"
  shows "storage (snd (createIdea P rnd now s title body tags))
           = Some (uint8ArrayToBase64 P
                (db_export P (schema (snd (createIdea P rnd now s title body tags)))
                   (db (snd (createIdea P rnd now s title body tags)))))
         \<and> writes (snd (createIdea P rnd now s title body tags)) = writes s + 1"
  using assms by (auto simp: createIdea_def save_unfold Let_def split: if_splits)

lemma updateIdea_persists:
  assumes "fst (updateIdea P now s ident updates) = Inr x"
  shows "storage (snd (updateIdea P now s ident updates))
           = Some (uint8ArrayToBase64 P
                (db_export P (schema (snd (updateIdea P now s ident updates)))
                   (db (snd (updateIdea P now s ident updates)))))
         \<and> writes (snd (updateIdea P now s ident updates)) = writes s + 1"
  using assms
  by (auto simp: updateIdea_def save_and_return_true_unfold Let_def
           split: if_splits option.splits statement.splits)

lemma deleteIdea_persists:
  assumes "fst (deleteIdea P s ident) = Inr x"
  shows "storage (snd (deleteIdea P s ident))
           = Some (uint8ArrayToBase64 P
                (db_export P (schema (snd (deleteIdea P s ident)))
                   (db (snd (deleteIdea P s ident)))))
         \<and> writes (snd (deleteIdea P s ident)) = writes s + 1"
  using assms by (auto simp: deleteIdea_def save_and_return_true_unfold split: if_splits)

lemma perform_persists:
  assumes "fst (perform P s c)"
  shows "storage (snd (perform P s c))
           = Some (uint8ArrayToBase64 P
                (db_export P (schema (snd (perform P s c))) (db (snd (perform P s c)))))
         \<and> writes (snd (perform P s c)) = writes s + 1"
proof (cases c)
  case (Create rnd now title body tags)
  then show ?thesis
    using assms createIdea_persists [of P rnd now s title body tags]
    by (auto split: prod.splits sum.splits)
next
  case (Update now ident updates)
  then show ?thesis
    using assms updateIdea_persists [of P now s ident updates]
    by (auto split: prod.splits sum.splits)
next
  case (Delete ident)
  then show ?thesis
    using assms deleteIdea_persists [of P s ident]
    by (auto split: prod.splits sum.splits)
qed

text \<open>
  C4. Every call of create, update or delete that returns has passed through \<^verbatim>\<open>save\<close>:
  the localStorage entry is then the base64 text of the export of the table as the call
  left it, written by one call of \<^verbatim>\<open>setItem\<close>, and (when sql.js and the browser round-trip
  that file) \<^verbatim>\<open>init\<close> on this entry opens that table and runs \<^verbatim>\<open>runMigrations\<close> on it.
  The table has the column \<^verbatim>\<open>tags\<close>, as every table that \<^verbatim>\<open>init\<close> yields, so the
  migration changes nothing: \<^verbatim>\<open>init\<close> on this entry opens a table equal to the current
  one.
\<close>

theorem successful_mutation_is_persisted:
  assumes "fst (perform P s c)"
  shows "storage (snd (perform P s c))
           = Some (uint8ArrayToBase64 P
                (db_export P (schema (snd (perform P s c))) (db (snd (perform P s c)))))
         \<and> writes (snd (perform P s c)) = writes s + 1
         \<and> (file_round_trips P (schema (snd (perform P s c))) (db (snd (perform P s c))) \<longrightarrow>
              init P (storage (snd (perform P s c)))
                = Inr (Opened (runMigrations P
                         \<lparr>schema = schema (snd (perform P s c)), db = db (snd (perform P s c)),
                          storage = storage (snd (perform P s c)), writes = 0\<rparr>)))
         \<and> (has_tags_column (schema s)
              \<and> file_round_trips P (schema (snd (perform P s c))) (db (snd (perform P s c))) \<longrightarrow>
              init P (storage (snd (perform P s c)))
                = Inr (Opened \<lparr>schema = schema s, db = db (snd (perform P s c)),
                               storage = storage (snd (perform P s c)), writes = 0\<rparr>))"
  using perform_persists [OF assms]
    init_of_encoding [of P "schema (snd (perform P s c))" "db (snd (perform P s c))"]
  by (simp add: schema_after_perform runMigrations_with_tags)

theorem successful_mutation_is_persisted_witness:
  "fst (perform sample_platform fresh_store (Create zero_draws time1 ''A'' ''first idea'' (JArr [])))
   \<and> snd (perform sample_platform fresh_store (Create zero_draws time1 ''A'' ''first idea'' (JArr [])))
       = store_a
   \<and> storage store_a = Some [CHR ''b'', CHR 0x01]
   \<and> writes store_a = writes fresh_store + 1
   \<and> file_round_trips sample_platform (schema store_a) (db store_a)
   \<and> has_tags_column (schema fresh_store)
   \<and> init sample_platform (storage store_a)
       = Inr (Opened \<lparr>schema = Schema_current, db = [idea_a],
                      storage = Some [CHR ''b'', CHR 0x01], writes = 0\<rparr>)"
proof -
  have p: "perform sample_platform fresh_store
             (Create zero_draws time1 ''A'' ''first idea'' (JArr [])) = (True, store_a)"
    by code_simp
  have ok: "fst (perform sample_platform fresh_store
                   (Create zero_draws time1 ''A'' ''first idea'' (JArr [])))"
    by (subst p) simp
  have rt: "file_round_trips sample_platform (schema store_a) (db store_a)"
    by code_simp
  have h: "has_tags_column (schema fresh_store)"
    by code_simp
  note facts = successful_mutation_is_persisted [OF ok, unfolded p snd_conv]
  have "init sample_platform (storage store_a)
          = Inr (Opened \<lparr>schema = schema fresh_store, db = db store_a,
                         storage = storage store_a, writes = 0\<rparr>)"
    using facts rt h by blast
  then have loaded: "init sample_platform (storage store_a)
       = Inr (Opened \<lparr>schema = Schema_current, db = [idea_a],
                      storage = Some [CHR ''b'', CHR 0x01], writes = 0\<rparr>)"
    by (simp add: store_a_def fresh_store_def)
  have after: "snd (perform sample_platform fresh_store
                      (Create zero_draws time1 ''A'' ''first idea'' (JArr []))) = store_a"
    by (subst p) simp
  have entry: "storage store_a = Some [CHR ''b'', CHR 0x01]"
    by (simp add: store_a_def)
  have count: "writes store_a = writes fresh_store + 1"
    by (simp add: store_a_def fresh_store_def)
  show ?thesis
    using ok after entry count rt h loaded by blast
qed

text \<open>
  C5. For the table \<open>s\<close> reached from any store by any sequence of create, update and
  delete calls: the text that \<^verbatim>\<open>save\<close> hands to \<^verbatim>\<open>setItem\<close> is the base64 text of the export
  of the table, and \<^verbatim>\<open>init\<close> on that text (sql.js and the browser round-tripping the file)
  opens that table and runs \<^verbatim>\<open>runMigrations\<close> on it. When the store started with the column
  \<^verbatim>\<open>tags\<close>, as does every store that \<^verbatim>\<open>init\<close> has opened, the migration changes nothing:
  \<^verbatim>\<open>init\<close> yields a store whose table equals the one in memory, rows, fields and JSON text
  of the tags included, so that \<^verbatim>\<open>getAllIdeas\<close> lists the same records with the same tags.
\<close>

theorem serialize_then_load_round_trips:
  assumes "file_round_trips P (schema (run P s0 calls)) (db (run P s0 calls))"
  shows "init P (Some (uint8ArrayToBase64 P
                         (db_export P (schema (run P s0 calls)) (db (run P s0 calls)))))
           = Inr (Opened (runMigrations P
                    \<lparr>schema = schema (run P s0 calls), db = db (run P s0 calls),
                     storage = Some (uint8ArrayToBase64 P
                         (db_export P (schema (run P s0 calls)) (db (run P s0 calls)))),
                     writes = 0\<rparr>))
         \<and> (has_tags_column (schema s0) \<longrightarrow>
              init P (Some (uint8ArrayToBase64 P
                         (db_export P (schema (run P s0 calls)) (db (run P s0 calls)))))
                = Inr (Opened
                    \<lparr>schema = schema s0, db = db (run P s0 calls),
                     storage = Some (uint8ArrayToBase64 P
                         (db_export P (schema (run P s0 calls)) (db (run P s0 calls)))),
                     writes = 0\<rparr>))
         \<and> getAllIdeas P \<lparr>schema = schema (run P s0 calls), db = db (run P s0 calls),
                  storage = Some (uint8ArrayToBase64 P
                      (db_export P (schema (run P s0 calls)) (db (run P s0 calls)))),
                  writes = 0\<rparr>
             = getAllIdeas P (run P s0 calls)
         \<and> (setItem_accepts P (uint8ArrayToBase64 P
                 (db_export P (schema (run P s0 calls)) (db (run P s0 calls)))) \<longrightarrow>
              storage (snd (save P (run P s0 calls)))
                = Some (uint8ArrayToBase64 P
                    (db_export P (schema (run P s0 calls)) (db (run P s0 calls)))))
         \<and> (\<forall>savedDb s1. init P savedDb = Inr (Opened s1) \<longrightarrow> has_tags_column (schema s1))"
  using init_of_encoding [OF assms] has_tags_after_init
  by (auto simp: getAllIdeas_def save_unfold schema_after_run runMigrations_with_tags)

theorem serialize_then_load_round_trips_witness:
  "run sample_platform fresh_store [Create zero_draws time1 ''A'' ''first idea'' (JArr [])] = store_a
   \<and> file_round_trips sample_platform (schema store_a) (db store_a)
   \<and> has_tags_column (schema fresh_store)
   \<and> uint8ArrayToBase64 sample_platform (db_export sample_platform (schema store_a) (db store_a))
       = [CHR ''b'', CHR 0x01]
   \<and> init sample_platform (Some [CHR ''b'', CHR 0x01])
       = Inr (Opened \<lparr>schema = Schema_current, db = db store_a,
                      storage = Some [CHR ''b'', CHR 0x01], writes = 0\<rparr>)
   \<and> storage (snd (save sample_platform store_a)) = Some [CHR ''b'', CHR 0x01]
   \<and> init sample_platform None = Inr (Opened fresh_store)
   \<and> has_tags_column (schema fresh_store)"
proof -
  have r: "run sample_platform fresh_store
             [Create zero_draws time1 ''A'' ''first idea'' (JArr [])] = store_a"
    by code_simp
  have rt: "file_round_trips sample_platform (schema store_a) (db store_a)"
    by code_simp
  have rt': "file_round_trips sample_platform
               (schema (run sample_platform fresh_store
                      [Create zero_draws time1 ''A'' ''first idea'' (JArr [])]))
               (db (run sample_platform fresh_store
                      [Create zero_draws time1 ''A'' ''first idea'' (JArr [])]))"
    by (simp add: r rt)
  have h: "has_tags_column (schema fresh_store)"
    by code_simp
  have sch: "schema fresh_store = Schema_current"
    by code_simp
  have enc: "uint8ArrayToBase64 sample_platform
               (db_export sample_platform (schema store_a) (db store_a))
               = [CHR ''b'', CHR 0x01]"
    by code_simp
  have acc: "setItem_accepts sample_platform [CHR ''b'', CHR 0x01]"
    by code_simp
  have new: "init sample_platform None = Inr (Opened fresh_store)"
    by code_simp
  note facts = serialize_then_load_round_trips [OF rt', unfolded r enc]
  have loaded: "init sample_platform (Some [CHR ''b'', CHR 0x01])
          = Inr (Opened \<lparr>schema = schema fresh_store, db = db store_a,
                         storage = Some [CHR ''b'', CHR 0x01], writes = 0\<rparr>)"
    using facts h by blast
  have saved: "storage (snd (save sample_platform store_a)) = Some [CHR ''b'', CHR 0x01]"
    using facts acc by blast
  show ?thesis
    using loaded saved r rt enc h new by (simp add: sch)
qed

subsection \<open>Listing\<close>

lemma mset_insert_desc: "mset (insert_desc x ys) = add_mset x (mset ys)"
  by (induction ys) auto

lemma mset_order_by: "mset (order_by_updated_at_desc rows) = mset rows"
  by (induction rows) (simp_all add: order_by_updated_at_desc_def mset_insert_desc)


lemma length_order_by: "length (order_by_updated_at_desc rows) = length rows"
  using mset_order_by [of rows] by (metis size_mset)






lemma parse_tags_sets_tags: "\<exists>v. parse_tags P row = set_prop ''tags'' v row"
  by (auto simp: parse_tags_def split: option.splits)



lemma keys_of_getAsObject: "map fst (getAsObject sch r) = map column_name (columns_of sch)"
  by (simp add: getAsObject_def comp_def)

lemma keys_of_parse_tags:
  "map fst (parse_tags P (getAsObject sch r))
     = (if sch = Schema_current
        then [''id'', ''title'', ''body'', ''stage'', ''tags'', ''essence'', ''insight'',
              ''next_action'', ''created_at'', ''updated_at'']
        else [''id'', ''title'', ''body'', ''stage'', ''essence'', ''insight'',
              ''next_action'', ''created_at'', ''updated_at'', ''tags''])"
proof -
  obtain v where v: "parse_tags P (getAsObject sch r) = set_prop ''tags'' v (getAsObject sch r)"
    using parse_tags_sets_tags by blast
  show ?thesis
  proof (cases sch)
    case Schema_current
    then show ?thesis
      unfolding v by (simp add: keys_set_prop keys_of_getAsObject)
  next
    case Schema_original
    then show ?thesis
      unfolding v by (simp add: keys_set_prop_new keys_of_getAsObject)
  next
    case Schema_migrated
    then show ?thesis
      unfolding v by (simp add: keys_set_prop keys_of_getAsObject)
  qed
qed





subsection \<open>Export\<close>

text \<open>
  C6. The claim: each record of the export has exactly the fields id, title, body, tags,
  created_at and updated_at. The records are the rows of \<^verbatim>\<open>SELECT *\<close>: the export of a store
  holding one idea has one record with the ten columns of the table, \<^verbatim>\<open>stage\<close>,
  \<^verbatim>\<open>essence\<close>, \<^verbatim>\<open>insight\<close> and \<^verbatim>\<open>next_action\<close> among them.
\<close>

theorem export_fields_counterexample:
  "exportToJSON sample_platform time2 store_a
     = JObj [(''schema_version'', JNum 1),
             (''exported_at'', JStr time2),
             (''ideas'', JArr [JObj [(''id'', JStr id_zero), (''title'', JStr ''A''),
                                     (''body'', JStr ''first idea''),
                                     (''stage'', JStr ''captured''), (''tags'', JArr []),
                                     (''essence'', JNull), (''insight'', JNull),
                                     (''next_action'', JNull), (''created_at'', JStr time1),
                                     (''updated_at'', JStr time1)]])]"
  by code_simp

text \<open>
  C6, amended. \<^verbatim>\<open>exportToJSON\<close> returns an object with exactly three properties:
  \<^verbatim>\<open>schema_version\<close>, the number 1; \<^verbatim>\<open>exported_at\<close>, the time of the call as given by
  \<^verbatim>\<open>toISOString\<close>; and \<^verbatim>\<open>ideas\<close>, the listing of \<^verbatim>\<open>getAllIdeas\<close>, one record for each row
  of the table. Each record has ten properties, the columns of the table in the order of
  the table, with \<^verbatim>\<open>tags\<close> read as by \<^verbatim>\<open>getAllIdeas\<close>. In a database created by this
  \<^verbatim>\<open>db.js\<close> the order is id, title, body, stage, tags, essence, insight, next_action,
  created_at, updated_at. In a database created by the earlier \<^verbatim>\<open>db.js\<close>, to which
  \<^verbatim>\<open>runMigrations\<close> has added the column, \<^verbatim>\<open>tags\<close> comes last: id, title, body, stage,
  essence, insight, next_action, created_at, updated_at, tags.
\<close>

theorem export_shape:
  "exportToJSON P now s
     = JObj [(''schema_version'', JNum 1), (''exported_at'', JStr now),
             (''ideas'', JArr (map JObj (getAllIdeas P s)))]
   \<and> length (getAllIdeas P s) = length (db s)
   \<and> (\<forall>idea\<in>set (getAllIdeas P s).
         map fst idea
           = (if schema s = Schema_current
              then [''id'', ''title'', ''body'', ''stage'', ''tags'', ''essence'', ''insight'',
                    ''next_action'', ''created_at'', ''updated_at'']
              else [''id'', ''title'', ''body'', ''stage'', ''essence'', ''insight'',
                    ''next_action'', ''created_at'', ''updated_at'', ''tags'']))
   \<and> (\<forall>sch rows savedDb.
         \<not> has_tags_column sch \<longrightarrow>
         schema (runMigrations P \<lparr>schema = sch, db = rows, storage = savedDb, writes = 0\<rparr>)
           = Schema_migrated)
   \<and> columns_of Schema_migrated = columns_of Schema_original @ [Col_tags]"
proof -
  have keys: "\<forall>idea\<in>set (getAllIdeas P s).
         map fst idea
           = (if schema s = Schema_current
              then [''id'', ''title'', ''body'', ''stage'', ''tags'', ''essence'', ''insight'',
                    ''next_action'', ''created_at'', ''updated_at'']
              else [''id'', ''title'', ''body'', ''stage'', ''essence'', ''insight'',
                    ''next_action'', ''created_at'', ''updated_at'', ''tags''])"
    by (auto simp: getAllIdeas_def keys_of_parse_tags)
  have mig: "\<forall>sch rows savedDb.
         \<not> has_tags_column sch \<longrightarrow>
         schema (runMigrations P \<lparr>schema = sch, db = rows, storage = savedDb, writes = 0\<rparr>)
           = Schema_migrated"
    by (simp add: runMigrations_without_tags save_unfold)
  show ?thesis
    using keys mig
    by (simp add: exportToJSON_def DB_VERSION_def getAllIdeas_def length_order_by)
qed

theorem export_shape_witness:
  "map (map fst) (getAllIdeas sample_platform store_a)
       = [[''id'', ''title'', ''body'', ''stage'', ''tags'', ''essence'',
           ''insight'', ''next_action'', ''created_at'', ''updated_at'']]
   \<and> init sample_platform (storage unmigrated_store) = Inr (Opened migrated_store)
   \<and> map (map fst) (getAllIdeas sample_platform migrated_store)
       = [[''id'', ''title'', ''body'', ''stage'', ''essence'', ''insight'',
           ''next_action'', ''created_at'', ''updated_at'', ''tags'']]
   \<and> exportToJSON sample_platform time2 migrated_store
       = JObj [(''schema_version'', JNum 1),
               (''exported_at'', JStr time2),
               (''ideas'', JArr [JObj [(''id'', JStr id_one), (''title'', JStr ''Old''),
                                       (''body'', JStr ''an early idea''),
                                       (''stage'', JStr ''captured''),
                                       (''essence'', JNull), (''insight'', JNull),
                                       (''next_action'', JNull), (''created_at'', JStr time1),
                                       (''updated_at'', JStr time1), (''tags'', JArr [])]])]
   \<and> schema (runMigrations sample_platform
               \<lparr>schema = Schema_original, db = [old_idea], storage = storage unmigrated_store,
                writes = 0\<rparr>) = Schema_migrated"
proof -
  have len_a: "length (db store_a) = 1"
    by (simp add: store_a_def)
  have len_m: "length (db migrated_store) = 1"
    by (simp add: migrated_store_def)
  have sch_a: "schema store_a = Schema_current"
    by (simp add: store_a_def)
  have sch_m: "schema migrated_store \<noteq> Schema_current"
    by (simp add: migrated_store_def)
  have old: "\<not> has_tags_column Schema_original"
    by code_simp
  have ini: "init sample_platform (storage unmigrated_store) = Inr (Opened migrated_store)"
    by code_simp
  have ex: "exportToJSON sample_platform time2 migrated_store
       = JObj [(''schema_version'', JNum 1),
               (''exported_at'', JStr time2),
               (''ideas'', JArr [JObj [(''id'', JStr id_one), (''title'', JStr ''Old''),
                                       (''body'', JStr ''an early idea''),
                                       (''stage'', JStr ''captured''),
                                       (''essence'', JNull), (''insight'', JNull),
                                       (''next_action'', JNull), (''created_at'', JStr time1),
                                       (''updated_at'', JStr time1), (''tags'', JArr [])]])]"
    by code_simp
  have a: "map (map fst) (getAllIdeas sample_platform store_a)
       = [[''id'', ''title'', ''body'', ''stage'', ''tags'', ''essence'',
           ''insight'', ''next_action'', ''created_at'', ''updated_at'']]"
    using export_shape [of sample_platform time2 store_a] len_a sch_a
    by (cases "getAllIdeas sample_platform store_a") auto
  have m: "map (map fst) (getAllIdeas sample_platform migrated_store)
       = [[''id'', ''title'', ''body'', ''stage'', ''essence'', ''insight'',
           ''next_action'', ''created_at'', ''updated_at'', ''tags'']]"
    using export_shape [of sample_platform time2 migrated_store] len_m sch_m
    by (cases "getAllIdeas sample_platform migrated_store") auto
  have mig: "schema (runMigrations sample_platform
               \<lparr>schema = Schema_original, db = [old_idea], storage = storage unmigrated_store,
                writes = 0\<rparr>) = Schema_migrated"
    using export_shape [of sample_platform time2 store_a] old by blast
  show ?thesis
    using a m ini ex mig by simp
qed

subsection \<open>Protected columns\<close>

text \<open>
  C8. The claim: no update call changes the id or created_at of a record. The loop of
  \<^verbatim>\<open>updateIdea\<close> skips the keys spelled \<^verbatim>\<open>id\<close> and \<^verbatim>\<open>created_at\<close>, and SQLite reads a
  column name without regard to case: the key \<^verbatim>\<open>ID\<close> passes the test and the statement
  \<^verbatim>\<open>UPDATE ideas SET ID = ?, updated_at = ? WHERE id = ?\<close> gives the record another id,
  under which \<^verbatim>\<open>getIdea\<close> no longer finds it; the key \<^verbatim>\<open>Created_At\<close> overwrites created_at
  likewise.
\<close>

theorem uppercase_key_overwrites_id:
  "updateIdea sample_platform time2 store_a id_zero [(''ID'', JStr ''changed'')]
     = (Inr True,
        \<lparr>schema = Schema_current,
         db = [idea_a\<lparr>id_col := SText ''changed'', updated_at_col := SText time2\<rparr>],
         storage = Some [CHR ''b'', CHR 0x04], writes = 3\<rparr>)
   \<and> getIdea sample_platform
        (snd (updateIdea sample_platform time2 store_a id_zero [(''ID'', JStr ''changed'')]))
        id_zero = None
   \<and> map created_at_col
        (db (snd (updateIdea sample_platform time2 store_a id_zero
                    [(''Created_At'', JStr ''1970-01-01T00:00:00.000Z'')])))
     = [SText ''1970-01-01T00:00:00.000Z'']"
  by code_simp

text \<open>
  The keys spelled \<^verbatim>\<open>id\<close> and \<^verbatim>\<open>created_at\<close> are skipped, and an update whose remaining
  keys name neither column leaves both columns of every row as they were.
\<close>

lemma exact_keys_are_skipped:
  "update_entries P ((''id'', v) # (''created_at'', w) # rest) = update_entries P rest"
  by simp

lemma set_col_keeps_id: "c \<noteq> Col_id \<Longrightarrow> id_col (set_col c v r) = id_col r"
  by (cases c) simp_all

lemma set_col_keeps_created_at:
  "c \<noteq> Col_created_at \<Longrightarrow> created_at_col (set_col c v r) = created_at_col r"
  by (cases c) simp_all

lemma assign_columns_keeps_id:
  assumes "Col_id \<notin> fst ` set assignments"
  shows "id_col (assign_columns assignments r) = id_col r"
  using assms unfolding assign_columns_def
proof (induction assignments arbitrary: r)
  case Nil
  then show ?case by simp
next
  case (Cons a assignments)
  obtain c v where a: "a = (c, v)" by (cases a)
  with Cons.prems have "c \<noteq> Col_id" by auto
  then show ?case
    using Cons.IH [of "set_col c v r"] Cons.prems
    by (simp add: a set_col_keeps_id)
qed

lemma assign_columns_keeps_created_at:
  assumes "Col_created_at \<notin> fst ` set assignments"
  shows "created_at_col (assign_columns assignments r) = created_at_col r"
  using assms unfolding assign_columns_def
proof (induction assignments arbitrary: r)
  case Nil
  then show ?case by simp
next
  case (Cons a assignments)
  obtain c v where a: "a = (c, v)" by (cases a)
  with Cons.prems have "c \<noteq> Col_created_at" by auto
  then show ?case
    using Cons.IH [of "set_col c v r"] Cons.prems
    by (simp add: a set_col_keeps_created_at)
qed

lemma db_after_updateIdea_Assigns:
  assumes "update_statement (schema s) (update_fields P updates) = Assigns cols"
  shows "db (snd (updateIdea P now s ident updates)) = db s
       \<or> (\<exists>bound. db (snd (updateIdea P now s ident updates))
             = map (\<lambda>r. if id_col r = SText ident then assign_columns (zip cols bound) r else r)
                 (db s))"
  by (auto simp: updateIdea_def assms Let_def save_and_return_true_unfold
           split: option.splits)

lemma updateIdea_keeps_ids:
  assumes "update_statement (schema s) (update_fields P updates) = Assigns cols"
    and "Col_id \<notin> set cols"
  shows "map id_col (db (snd (updateIdea P now s ident updates))) = map id_col (db s)"
proof -
  have "map id_col (map (\<lambda>r. if id_col r = SText ident then assign_columns (zip cols bound) r else r) (db s))
          = map id_col (db s)" for bound
  proof -
    have "Col_id \<notin> fst ` set (zip cols bound)"
      using assms(2) by (auto dest: set_zip_leftD)
    then show ?thesis
      using assign_columns_keeps_id by (simp add: comp_def)
  qed
  then show ?thesis
    using db_after_updateIdea_Assigns [OF assms(1), of now ident] by auto
qed

lemma updateIdea_keeps_protected_columns:
  assumes "update_statement (schema s) (update_fields P updates) = Assigns cols"
    and "Col_id \<notin> set cols" "Col_created_at \<notin> set cols"
  shows "map id_col (db (snd (updateIdea P now s ident updates))) = map id_col (db s)
       \<and> map created_at_col (db (snd (updateIdea P now s ident updates)))
           = map created_at_col (db s)"
proof -
  have "map created_at_col (map (\<lambda>r. if id_col r = SText ident then assign_columns (zip cols bound) r else r) (db s))
          = map created_at_col (db s)" for bound
  proof -
    have "Col_created_at \<notin> fst ` set (zip cols bound)"
      using assms(3) by (auto dest: set_zip_leftD)
    then show ?thesis
      using assign_columns_keeps_created_at by (simp add: comp_def)
  qed
  then have "map created_at_col (db (snd (updateIdea P now s ident updates)))
           = map created_at_col (db s)"
    using db_after_updateIdea_Assigns [OF assms(1), of now ident] by auto
  then show ?thesis
    using updateIdea_keeps_ids [OF assms(1,2)] by simp
qed

subsection \<open>Uniqueness of ids\<close>

text \<open>
  C9. The claim: whatever the random source does, no two ids generated by create are
  equal. \<^verbatim>\<open>generateUUID\<close> is a function of its draws: a second \<^verbatim>\<open>createIdea\<close> for which
  \<^verbatim>\<open>Math.random\<close> repeats the draws of the first generates the id of the first, and its
  \<^verbatim>\<open>INSERT\<close> fails on the primary key.
\<close>

theorem repeated_draws_counterexample:
  "createIdea sample_platform zero_draws time1 fresh_store ''A'' ''first idea'' (JArr [])
     = (Inr id_zero, store_a)
   \<and> generateUUID zero_draws = id_zero
   \<and> createIdea sample_platform zero_draws time2 store_a ''B'' ''second idea'' (JArr [])
     = (Inl ConstraintError, store_a)"
  by code_simp

text \<open>
  The primary key of SQLite admits NULL, more than once: two updates with the key \<^verbatim>\<open>ID\<close>
  and the value null leave two records with the id NULL.
\<close>

lemma null_ids_can_repeat:
  "map id_col
     (db (run sample_platform empty_store
            [Create zero_draws time1 ''A'' ''first idea'' (JArr []),
             Create one_draws time2 ''B'' ''second idea'' (JArr []),
             Update time3 id_zero [(''ID'', JNull)],
             Update time4 id_one [(''ID'', JNull)]]))
   = [SNull, SNull]"
  by code_simp

lemma primary_key_ok_append:
  assumes "primary_key_ok rows" "id_col r \<notin> set (map id_col rows)"
  shows "primary_key_ok (rows @ [r])"
  using assms by (auto simp: primary_key_ok_def)

lemma primary_key_ok_filter:
  assumes "primary_key_ok rows"
  shows "primary_key_ok (filter Q rows)"
  using assms unfolding primary_key_ok_def
  by (induction rows) (auto split: if_splits)

lemma createIdea_unchanged_or_appends:
  "snd (createIdea P rnd now s title body tags) = s
   \<or> (SText (generateUUID rnd) \<notin> set (map id_col (db s))
      \<and> db (snd (createIdea P rnd now s title body tags))
          = db s @ [inserted_row (generateUUID rnd) title body (JSON_stringify P tags) now])"
  by (simp add: createIdea_def save_unfold Let_def)

lemma createIdea_keeps_primary_key:
  assumes "primary_key_ok (db s)"
  shows "primary_key_ok (db (snd (createIdea P rnd now s title body tags)))"
proof -
  have "primary_key_ok
          (db s @ [inserted_row (generateUUID rnd) title body (JSON_stringify P tags) now])"
    if "SText (generateUUID rnd) \<notin> set (map id_col (db s))"
    using that assms by (intro primary_key_ok_append) (simp_all add: inserted_row_def)
  then show ?thesis
    using createIdea_unchanged_or_appends [of P rnd now s title body tags] assms by auto
qed

lemma updateIdea_keeps_primary_key:
  assumes "primary_key_ok (db s)"
    and "\<forall>names vals rows rows'.
           primary_key_ok rows \<and> sqlite_update P names vals (schema s) rows = Some rows' \<longrightarrow>
           primary_key_ok rows'"
  shows "primary_key_ok (db (snd (updateIdea P now s ident updates)))"
proof (cases "update_statement (schema s) (update_fields P updates)")
  case (Assigns cols)
  then show ?thesis
    using assms(1)
    by (auto simp: updateIdea_def Let_def save_and_return_true_unfold filter_empty_conv map_idI
             split: option.splits)
next
  case No_such_column
  then show ?thesis
    using assms(1) by (simp add: updateIdea_def)
next
  case Left_to_sqlite
  show ?thesis
  proof (cases "sqlite_update P (update_fields P updates)
                  (update_values P now updates @ [JStr ident]) (schema s) (db s)")
    case None
    then show ?thesis
      using assms(1) by (simp add: updateIdea_def Left_to_sqlite)
  next
    case (Some rows')
    then have "primary_key_ok rows'"
      using assms by blast
    then show ?thesis
      by (simp add: updateIdea_def Left_to_sqlite Some save_and_return_true_unfold)
  qed
qed

lemma deleteIdea_keeps_primary_key:
  assumes "primary_key_ok (db s)"
  shows "primary_key_ok (db (snd (deleteIdea P s ident)))"
  using assms by (simp add: deleteIdea_def save_and_return_true_unfold primary_key_ok_filter)

lemma perform_keeps_primary_key:
  assumes "primary_key_ok (db s)"
    and "\<forall>names vals rows rows'.
           primary_key_ok rows \<and> sqlite_update P names vals (schema s) rows = Some rows' \<longrightarrow>
           primary_key_ok rows'"
  shows "primary_key_ok (db (snd (perform P s c)))"
proof (cases c)
  case (Create rnd now title body tags)
  then show ?thesis
    using createIdea_keeps_primary_key [OF assms(1)] by (simp only: snd_perform_Create)
next
  case (Update now ident updates)
  then show ?thesis
    using updateIdea_keeps_primary_key [OF assms] by (simp only: snd_perform_Update)
next
  case (Delete ident)
  then show ?thesis
    using deleteIdea_keeps_primary_key [OF assms(1)] by (simp only: snd_perform_Delete)
qed

lemma run_keeps_primary_key:
  "primary_key_ok (db s) \<Longrightarrow>
   \<forall>names vals rows rows'.
      primary_key_ok rows \<and> sqlite_update P names vals (schema s) rows = Some rows' \<longrightarrow>
      primary_key_ok rows' \<Longrightarrow>
   primary_key_ok (db (run P s calls))"
  unfolding run_def
proof (induction calls arbitrary: s)
  case Nil
  then show ?case by simp
next
  case (Cons c calls)
  have "primary_key_ok (db (snd (perform P s c)))"
    using perform_keeps_primary_key [OF Cons.prems] .
  then show ?case
    using Cons.IH [of "snd (perform P s c)"] Cons.prems(2)
    by (simp add: schema_after_perform)
qed

lemma distinct_texts_append:
  assumes "ids_are_distinct_texts rows" "SText t \<notin> set (map id_col rows)" "id_col r = SText t"
  shows "ids_are_distinct_texts (rows @ [r])"
  using assms by (auto simp: ids_are_distinct_texts_def is_text_def)

lemma distinct_texts_filter:
  assumes "ids_are_distinct_texts rows"
  shows "ids_are_distinct_texts (filter Q rows)"
  using assms by (auto simp: ids_are_distinct_texts_def list_all_iff distinct_map_filter)

lemma distinct_texts_same_ids:
  assumes "ids_are_distinct_texts rows" "map id_col rows' = map id_col rows"
  shows "ids_are_distinct_texts rows'"
  using assms by (simp add: ids_are_distinct_texts_def)

lemma perform_keeps_distinct_texts:
  assumes "ids_are_distinct_texts (db s)" "leaves_id_column P (schema s) c"
  shows "ids_are_distinct_texts (db (snd (perform P s c)))"
proof (cases c)
  case (Create rnd now title body tags)
  have "ids_are_distinct_texts
          (db s @ [inserted_row (generateUUID rnd) title body (JSON_stringify P tags) now])"
    if "SText (generateUUID rnd) \<notin> set (map id_col (db s))"
    using assms(1) that by (rule distinct_texts_append) (simp add: inserted_row_def)
  then have "ids_are_distinct_texts (db (snd (createIdea P rnd now s title body tags)))"
    using createIdea_unchanged_or_appends [of P rnd now s title body tags] assms(1) by auto
  then show ?thesis
    unfolding Create by (simp only: snd_perform_Create)
next
  case (Update now ident updates)
  have "ids_are_distinct_texts (db (snd (updateIdea P now s ident updates)))"
  proof (cases "update_statement (schema s) (update_fields P updates)")
    case (Assigns cols)
    then have "Col_id \<notin> set cols"
      using assms(2) by (simp add: Update)
    then show ?thesis
      using updateIdea_keeps_ids [OF Assigns] assms(1) distinct_texts_same_ids by blast
  next
    case No_such_column
    then show ?thesis
      using assms(1) by (simp add: updateIdea_def)
  next
    case Left_to_sqlite
    then show ?thesis
      using assms(2) by (simp add: Update)
  qed
  then show ?thesis
    unfolding Update by (simp only: snd_perform_Update)
next
  case (Delete ident)
  have "ids_are_distinct_texts (db (snd (deleteIdea P s ident)))"
    using assms(1) by (simp add: deleteIdea_def save_and_return_true_unfold distinct_texts_filter)
  then show ?thesis
    unfolding Delete by (simp only: snd_perform_Delete)
qed

lemma run_keeps_distinct_texts:
  "ids_are_distinct_texts (db s) \<Longrightarrow> list_all (leaves_id_column P (schema s)) calls \<Longrightarrow>
   ids_are_distinct_texts (db (run P s calls))"
  unfolding run_def
proof (induction calls arbitrary: s)
  case Nil
  then show ?case by simp
next
  case (Cons c calls)
  have "ids_are_distinct_texts (db (snd (perform P s c)))"
    using perform_keeps_distinct_texts [of s P c] Cons.prems by simp
  then show ?case
    using Cons.IH [of "snd (perform P s c)"] Cons.prems(2)
    by (simp add: schema_after_perform)
qed

text \<open>
  C9, amended. The generator gives no guarantee: equal draws give equal ids. What keeps
  the ids of the table apart is the primary key. A \<^verbatim>\<open>createIdea\<close> whose generated id is
  already in the table throws and leaves the table and localStorage as they were;
  otherwise the new id is added after the others. Through every sequence of create,
  update and delete calls the ids that are not NULL stay pairwise different (where an
  update has a key that is no plain column name, or a rowid name, this rests on SQLite
  keeping its primary key in that statement). And through every sequence of creates,
  deletes and updates that assign nothing to the column id, under whatever spelling, every
  id stays a text and the ids stay pairwise different.
\<close>

theorem ids_stay_unique:
  "(has_tags_column (schema s) \<and> SText (generateUUID rnd) \<in> set (map id_col (db s)) \<longrightarrow>
        createIdea P rnd now s title body tags = (Inl ConstraintError, s))
   \<and> (has_tags_column (schema s) \<and> SText (generateUUID rnd) \<notin> set (map id_col (db s)) \<longrightarrow>
        map id_col (db (snd (createIdea P rnd now s title body tags)))
          = map id_col (db s) @ [SText (generateUUID rnd)])
   \<and> (primary_key_ok (db s)
        \<and> (\<forall>names vals rows rows'.
              primary_key_ok rows \<and> sqlite_update P names vals (schema s) rows = Some rows' \<longrightarrow>
              primary_key_ok rows') \<longrightarrow>
        primary_key_ok (db (run P s calls)))
   \<and> (ids_are_distinct_texts (db s) \<and> list_all (leaves_id_column P (schema s)) calls \<longrightarrow>
        ids_are_distinct_texts (db (run P s calls)))"
proof (intro conjI impI)
  assume "has_tags_column (schema s) \<and> SText (generateUUID rnd) \<in> set (map id_col (db s))"
  then show "createIdea P rnd now s title body tags = (Inl ConstraintError, s)"
    by (simp add: createIdea_def)
next
  assume "has_tags_column (schema s) \<and> SText (generateUUID rnd) \<notin> set (map id_col (db s))"
  then show "map id_col (db (snd (createIdea P rnd now s title body tags)))
          = map id_col (db s) @ [SText (generateUUID rnd)]"
    by (simp add: db_after_createIdea inserted_row_def)
next
  assume "primary_key_ok (db s)
        \<and> (\<forall>names vals rows rows'.
              primary_key_ok rows \<and> sqlite_update P names vals (schema s) rows = Some rows' \<longrightarrow>
              primary_key_ok rows')"
  then show "primary_key_ok (db (run P s calls))"
    using run_keeps_primary_key [of s P calls] by blast
next
  assume "ids_are_distinct_texts (db s) \<and> list_all (leaves_id_column P (schema s)) calls"
  then show "ids_are_distinct_texts (db (run P s calls))"
    using run_keeps_distinct_texts by blast
qed

theorem ids_stay_unique_witness:
  "has_tags_column (schema store_a)
   \<and> SText (generateUUID zero_draws) \<in> set (map id_col (db store_a))
   \<and> createIdea unmatched_platform zero_draws time2 store_a ''B'' ''second idea'' (JArr [])
       = (Inl ConstraintError, store_a)
   \<and> SText (generateUUID one_draws) \<notin> set (map id_col (db store_a))
   \<and> map id_col (db (snd (createIdea unmatched_platform one_draws time3 store_a ''C''
                              ''third idea'' (JArr []))))
       = [SText id_zero, SText id_one]
   \<and> primary_key_ok (db store_a)
   \<and> sqlite_update unmatched_platform [''rowid'', ''updated_at''] [JNum 7, JStr time2, JStr id_zero]
        Schema_current (db store_a) = Some (db store_a)
   \<and> primary_key_ok
        (db (run unmatched_platform store_a
               [Create zero_draws time2 ''B'' ''second idea'' (JArr []),
                Update time2 id_zero [(''rowid'', JNum 7)],
                Update time3 id_zero [(''ID'', JNull)],
                Create one_draws time4 ''C'' ''third idea'' (JArr [])]))
   \<and> ids_are_distinct_texts (db store_a)
   \<and> list_all (leaves_id_column unmatched_platform (schema store_a))
        [Create zero_draws time2 ''B'' ''second idea'' (JArr []),
         Update time3 id_zero [(''title'', JStr ''A, edited'')],
         Create one_draws time4 ''C'' ''third idea'' (JArr []),
         Delete id_zero]
   \<and> ids_are_distinct_texts
        (db (run unmatched_platform store_a
               [Create zero_draws time2 ''B'' ''second idea'' (JArr []),
                Update time3 id_zero [(''title'', JStr ''A, edited'')],
                Create one_draws time4 ''C'' ''third idea'' (JArr []),
                Delete id_zero]))"
proof -
  have h: "has_tags_column (schema store_a)"
    by code_simp
  have used: "SText (generateUUID zero_draws) \<in> set (map id_col (db store_a))"
    by code_simp
  have unused: "SText (generateUUID one_draws) \<notin> set (map id_col (db store_a))"
    by code_simp
  have ids: "map id_col (db store_a) = [SText id_zero]"
    by code_simp
  have pk: "primary_key_ok (db store_a)"
    by code_simp
  have lib: "\<forall>names vals rows rows'.
               primary_key_ok rows
               \<and> sqlite_update unmatched_platform names vals (schema store_a) rows = Some rows' \<longrightarrow>
               primary_key_ok rows'"
    by (simp add: unmatched_platform_def)
  have upd: "sqlite_update unmatched_platform [''rowid'', ''updated_at'']
               [JNum 7, JStr time2, JStr id_zero] Schema_current (db store_a) = Some (db store_a)"
    by (simp add: unmatched_platform_def)
  have dt: "ids_are_distinct_texts (db store_a)"
    by code_simp
  have calls: "list_all (leaves_id_column unmatched_platform (schema store_a))
        [Create zero_draws time2 ''B'' ''second idea'' (JArr []),
         Update time3 id_zero [(''title'', JStr ''A, edited'')],
         Create one_draws time4 ''C'' ''third idea'' (JArr []),
         Delete id_zero]"
    by code_simp
  note create_used = ids_stay_unique [of store_a zero_draws unmatched_platform time2 "''B''"
            "''second idea''" "JArr []" "[]"]
  note create_unused = ids_stay_unique [of store_a one_draws unmatched_platform time3 "''C''"
            "''third idea''" "JArr []" "[]"]
  note any_calls = ids_stay_unique [of store_a zero_draws unmatched_platform time2 "''B''"
            "''second idea''" "JArr []"
            "[Create zero_draws time2 ''B'' ''second idea'' (JArr []),
              Update time2 id_zero [(''rowid'', JNum 7)],
              Update time3 id_zero [(''ID'', JNull)],
              Create one_draws time4 ''C'' ''third idea'' (JArr [])]"]
  note id_calls = ids_stay_unique [of store_a zero_draws unmatched_platform time2 "''B''"
            "''second idea''" "JArr []"
            "[Create zero_draws time2 ''B'' ''second idea'' (JArr []),
              Update time3 id_zero [(''title'', JStr ''A, edited'')],
              Create one_draws time4 ''C'' ''third idea'' (JArr []),
              Delete id_zero]"]
  have a: "createIdea unmatched_platform zero_draws time2 store_a ''B'' ''second idea'' (JArr [])
       = (Inl ConstraintError, store_a)"
    using create_used h used by blast
  have b: "map id_col (db (snd (createIdea unmatched_platform one_draws time3 store_a ''C''
                              ''third idea'' (JArr []))))
       = [SText id_zero, SText id_one]"
    using create_unused h unused by (simp add: ids generateUUID_one_draws)
  have c: "primary_key_ok
        (db (run unmatched_platform store_a
               [Create zero_draws time2 ''B'' ''second idea'' (JArr []),
                Update time2 id_zero [(''rowid'', JNum 7)],
                Update time3 id_zero [(''ID'', JNull)],
                Create one_draws time4 ''C'' ''third idea'' (JArr [])]))"
    using any_calls pk lib by blast
  have d: "ids_are_distinct_texts
        (db (run unmatched_platform store_a
               [Create zero_draws time2 ''B'' ''second idea'' (JArr []),
                Update time3 id_zero [(''title'', JStr ''A, edited'')],
                Create one_draws time4 ''C'' ''third idea'' (JArr []),
                Delete id_zero]))"
    using id_calls dt calls by blast
  show ?thesis
    using h used unused pk upd dt calls a b c d by simp
qed

subsection \<open>Unreadable tags\<close>

lemma parse_tags_unreadable:
  assumes "map_of row ''tags'' = None
           \<or> (\<exists>t. map_of row ''tags'' = Some t \<and> (\<not> truthy t \<or> JSON_parse P t = None))"
  shows "parse_tags P row = set_prop ''tags'' (JArr []) row"
  using assms by (auto simp: parse_tags_def)

lemma row_tags_unreadable:
  assumes "\<not> has_tags_column sch \<or> tags_col r = SNull
           \<or> JSON_parse P (to_js (tags_col r)) = None"
  shows "parse_tags P (getAsObject sch r) = set_prop ''tags'' (JArr []) (getAsObject sch r)"
proof (cases "has_tags_column sch")
  case True
  then have "map_of (getAsObject sch r) ''tags'' = Some (to_js (tags_col r))"
    by (rule tags_of_getAsObject)
  moreover have "\<not> truthy (to_js (tags_col r)) \<or> JSON_parse P (to_js (tags_col r)) = None"
    using assms True by auto
  ultimately show ?thesis
    by (intro parse_tags_unreadable) simp
next
  case False
  then have "map_of (getAsObject sch r) ''tags'' = None"
    by (rule no_tags_of_getAsObject)
  then show ?thesis
    by (intro parse_tags_unreadable) simp
qed

lemma record_with_empty_tags:
  "set_prop ''tags'' (JArr []) (getAsObject sch r)
     = (if sch = Schema_current
        then [(''id'', to_js (id_col r)), (''title'', to_js (title_col r)),
              (''body'', to_js (body_col r)), (''stage'', to_js (stage_col r)),
              (''tags'', JArr []), (''essence'', to_js (essence_col r)),
              (''insight'', to_js (insight_col r)),
              (''next_action'', to_js (next_action_col r)),
              (''created_at'', to_js (created_at_col r)),
              (''updated_at'', to_js (updated_at_col r))]
        else [(''id'', to_js (id_col r)), (''title'', to_js (title_col r)),
              (''body'', to_js (body_col r)), (''stage'', to_js (stage_col r)),
              (''essence'', to_js (essence_col r)), (''insight'', to_js (insight_col r)),
              (''next_action'', to_js (next_action_col r)),
              (''created_at'', to_js (created_at_col r)),
              (''updated_at'', to_js (updated_at_col r)), (''tags'', JArr [])])"
  by (cases sch) (simp_all add: getAsObject_def)

lemma nth_getAllIdeas:
  assumes "i < length (db s)"
  shows "getAllIdeas P s ! i
           = parse_tags P (getAsObject (schema s) (order_by_updated_at_desc (db s) ! i))"
  using assms by (simp add: getAllIdeas_def length_order_by)

text \<open>
  C10. A row object whose \<^verbatim>\<open>tags\<close> property is absent, null (or falsy otherwise), or a
  value that \<^verbatim>\<open>JSON.parse\<close> rejects leaves the block of \<^verbatim>\<open>getAllIdeas\<close> and \<^verbatim>\<open>getIdea\<close>
  as the same object with \<^verbatim>\<open>tags\<close> set to the empty array: every other property keeps its
  value and its place, and \<^verbatim>\<open>tags\<close> keeps its place, or goes last when it was absent. So a
  stored record whose tags column is absent from the table, NULL, or does not parse is
  listed by \<^verbatim>\<open>getAllIdeas\<close> at its place in the order, and returned by \<^verbatim>\<open>getIdea\<close> for its
  id, as the record of its columns with \<^verbatim>\<open>tags = []\<close>; neither function throws. The lists
  spell the record out: in a table created by this \<^verbatim>\<open>db.js\<close> \<^verbatim>\<open>tags\<close> is its fifth property,
  in a table created by the earlier one its last.
\<close>

theorem unreadable_tags_read_as_empty:
  "(map_of row ''tags'' = None
      \<or> (\<exists>t. map_of row ''tags'' = Some t \<and> (\<not> truthy t \<or> JSON_parse P t = None)) \<longrightarrow>
      parse_tags P row = set_prop ''tags'' (JArr []) row
      \<and> (\<forall>k. map_of (parse_tags P row) k
               = (if k = ''tags'' then Some (JArr []) else map_of row k))
      \<and> map fst (parse_tags P row)
          = (if ''tags'' \<in> set (map fst row) then map fst row else map fst row @ [''tags'']))
   \<and> \<not> truthy JNull
   \<and> length (getAllIdeas P s) = length (db s)
   \<and> (i < length (db s) \<and> order_by_updated_at_desc (db s) ! i = r
        \<and> (\<not> has_tags_column (schema s) \<or> tags_col r = SNull
             \<or> JSON_parse P (to_js (tags_col r)) = None) \<longrightarrow>
        getAllIdeas P s ! i = set_prop ''tags'' (JArr []) (getAsObject (schema s) r))
   \<and> (filter (\<lambda>r'. id_col r' = SText ident) (db s) = r # rest
        \<and> (\<not> has_tags_column (schema s) \<or> tags_col r = SNull
             \<or> JSON_parse P (to_js (tags_col r)) = None) \<longrightarrow>
        getIdea P s ident = Some (set_prop ''tags'' (JArr []) (getAsObject (schema s) r)))
   \<and> set_prop ''tags'' (JArr []) (getAsObject (schema s) r)
       = (if schema s = Schema_current
          then [(''id'', to_js (id_col r)), (''title'', to_js (title_col r)),
                (''body'', to_js (body_col r)), (''stage'', to_js (stage_col r)),
                (''tags'', JArr []), (''essence'', to_js (essence_col r)),
                (''insight'', to_js (insight_col r)),
                (''next_action'', to_js (next_action_col r)),
                (''created_at'', to_js (created_at_col r)),
                (''updated_at'', to_js (updated_at_col r))]
          else [(''id'', to_js (id_col r)), (''title'', to_js (title_col r)),
                (''body'', to_js (body_col r)), (''stage'', to_js (stage_col r)),
                (''essence'', to_js (essence_col r)), (''insight'', to_js (insight_col r)),
                (''next_action'', to_js (next_action_col r)),
                (''created_at'', to_js (created_at_col r)),
                (''updated_at'', to_js (updated_at_col r)), (''tags'', JArr [])])"
proof (intro conjI impI)
  assume h: "map_of row ''tags'' = None
      \<or> (\<exists>t. map_of row ''tags'' = Some t \<and> (\<not> truthy t \<or> JSON_parse P t = None))"
  then have eq: "parse_tags P row = set_prop ''tags'' (JArr []) row"
    by (rule parse_tags_unreadable)
  show "parse_tags P row = set_prop ''tags'' (JArr []) row"
    by (rule eq)
  show "\<forall>k. map_of (parse_tags P row) k
               = (if k = ''tags'' then Some (JArr []) else map_of row k)"
    by (simp add: eq map_of_set_prop)
  show "map fst (parse_tags P row)
          = (if ''tags'' \<in> set (map fst row) then map fst row else map fst row @ [''tags''])"
    unfolding eq using keys_set_prop [of "''tags''" row] keys_set_prop_new [of "''tags''" row]
    by simp
next
  show "\<not> truthy JNull"
    by simp
next
  show "length (getAllIdeas P s) = length (db s)"
    by (simp add: getAllIdeas_def length_order_by)
next
  assume "i < length (db s) \<and> order_by_updated_at_desc (db s) ! i = r
        \<and> (\<not> has_tags_column (schema s) \<or> tags_col r = SNull
             \<or> JSON_parse P (to_js (tags_col r)) = None)"
  then show "getAllIdeas P s ! i = set_prop ''tags'' (JArr []) (getAsObject (schema s) r)"
    using nth_getAllIdeas [of i s P] row_tags_unreadable [of "schema s" r P] by simp
next
  assume "filter (\<lambda>r'. id_col r' = SText ident) (db s) = r # rest
        \<and> (\<not> has_tags_column (schema s) \<or> tags_col r = SNull
             \<or> JSON_parse P (to_js (tags_col r)) = None)"
  then show "getIdea P s ident = Some (set_prop ''tags'' (JArr []) (getAsObject (schema s) r))"
    using row_tags_unreadable [of "schema s" r P] by (simp add: getIdea_def)
next
  show "set_prop ''tags'' (JArr []) (getAsObject (schema s) r)
       = (if schema s = Schema_current
          then [(''id'', to_js (id_col r)), (''title'', to_js (title_col r)),
                (''body'', to_js (body_col r)), (''stage'', to_js (stage_col r)),
                (''tags'', JArr []), (''essence'', to_js (essence_col r)),
                (''insight'', to_js (insight_col r)),
                (''next_action'', to_js (next_action_col r)),
                (''created_at'', to_js (created_at_col r)),
                (''updated_at'', to_js (updated_at_col r))]
          else [(''id'', to_js (id_col r)), (''title'', to_js (title_col r)),
                (''body'', to_js (body_col r)), (''stage'', to_js (stage_col r)),
                (''essence'', to_js (essence_col r)), (''insight'', to_js (insight_col r)),
                (''next_action'', to_js (next_action_col r)),
                (''created_at'', to_js (created_at_col r)),
                (''updated_at'', to_js (updated_at_col r)), (''tags'', JArr [])])"
    by (rule record_with_empty_tags)
qed

theorem unreadable_tags_read_as_empty_witness:
  "parse_tags sample_platform [(''id'', JStr id_zero)]
     = [(''id'', JStr id_zero), (''tags'', JArr [])]
   \<and> parse_tags sample_platform [(''tags'', JStr ''[not json''), (''id'', JStr id_zero)]
     = [(''tags'', JArr []), (''id'', JStr id_zero)]
   \<and> tags_col idea_without_tags = SNull
   \<and> JSON_parse sample_platform (to_js (tags_col idea_with_broken_tags)) = None
   \<and> getAllIdeas sample_platform damaged_store
       = [[(''id'', JStr id_one), (''title'', JStr ''B''), (''body'', JStr ''second idea''),
           (''stage'', JStr ''captured''), (''tags'', JArr []), (''essence'', JNull),
           (''insight'', JNull), (''next_action'', JNull), (''created_at'', JStr time2),
           (''updated_at'', JStr time2)],
          [(''id'', JStr id_zero), (''title'', JStr ''A''), (''body'', JStr ''first idea''),
           (''stage'', JStr ''captured''), (''tags'', JArr []), (''essence'', JNull),
           (''insight'', JNull), (''next_action'', JNull), (''created_at'', JStr time1),
           (''updated_at'', JStr time1)]]
   \<and> getIdea sample_platform damaged_store id_zero
       = Some [(''id'', JStr id_zero), (''title'', JStr ''A''), (''body'', JStr ''first idea''),
               (''stage'', JStr ''captured''), (''tags'', JArr []), (''essence'', JNull),
               (''insight'', JNull), (''next_action'', JNull), (''created_at'', JStr time1),
               (''updated_at'', JStr time1)]
   \<and> getIdea sample_platform damaged_store id_one
       = Some [(''id'', JStr id_one), (''title'', JStr ''B''), (''body'', JStr ''second idea''),
               (''stage'', JStr ''captured''), (''tags'', JArr []), (''essence'', JNull),
               (''insight'', JNull), (''next_action'', JNull), (''created_at'', JStr time2),
               (''updated_at'', JStr time2)]
   \<and> \<not> has_tags_column (schema unmigrated_store)
   \<and> getIdea sample_platform unmigrated_store id_one
       = Some [(''id'', JStr id_one), (''title'', JStr ''Old''),
               (''body'', JStr ''an early idea''), (''stage'', JStr ''captured''),
               (''essence'', JNull), (''insight'', JNull), (''next_action'', JNull),
               (''created_at'', JStr time1), (''updated_at'', JStr time1),
               (''tags'', JArr [])]"
proof -
  have absent: "map_of [(''id'', JStr id_zero)] ''tags'' = None"
    by simp
  have unparsed: "map_of [(''tags'', JStr ''[not json''), (''id'', JStr id_zero)] ''tags''
                    = Some (JStr ''[not json'')
                  \<and> JSON_parse sample_platform (JStr ''[not json'') = None"
    by code_simp
  have null: "tags_col idea_without_tags = SNull"
    by code_simp
  have broken: "JSON_parse sample_platform (to_js (tags_col idea_with_broken_tags)) = None"
    by code_simp
  have old: "\<not> has_tags_column (schema unmigrated_store)"
    by code_simp
  have f0: "filter (\<lambda>r'. id_col r' = SText id_zero) (db damaged_store) = [idea_without_tags]"
    by code_simp
  have f1: "filter (\<lambda>r'. id_col r' = SText id_one) (db damaged_store) = [idea_with_broken_tags]"
    by code_simp
  have f2: "filter (\<lambda>r'. id_col r' = SText id_one) (db unmigrated_store) = [old_idea]"
    by code_simp
  have len: "length (db damaged_store) = 2"
    by code_simp
  have o0: "order_by_updated_at_desc (db damaged_store) ! 0 = idea_with_broken_tags"
    by code_simp
  have o1: "order_by_updated_at_desc (db damaged_store) ! 1 = idea_without_tags"
    by code_simp
  have sch: "schema damaged_store = Schema_current"
    by code_simp
  have sch_old: "schema unmigrated_store \<noteq> Schema_current"
    by code_simp
  have cols_broken:
    "[to_js (id_col idea_with_broken_tags), to_js (title_col idea_with_broken_tags),
      to_js (body_col idea_with_broken_tags), to_js (stage_col idea_with_broken_tags),
      to_js (essence_col idea_with_broken_tags), to_js (insight_col idea_with_broken_tags),
      to_js (next_action_col idea_with_broken_tags),
      to_js (created_at_col idea_with_broken_tags),
      to_js (updated_at_col idea_with_broken_tags)]
     = [JStr id_one, JStr ''B'', JStr ''second idea'', JStr ''captured'', JNull, JNull, JNull,
        JStr time2, JStr time2]"
    by code_simp
  have cols_without:
    "[to_js (id_col idea_without_tags), to_js (title_col idea_without_tags),
      to_js (body_col idea_without_tags), to_js (stage_col idea_without_tags),
      to_js (essence_col idea_without_tags), to_js (insight_col idea_without_tags),
      to_js (next_action_col idea_without_tags),
      to_js (created_at_col idea_without_tags),
      to_js (updated_at_col idea_without_tags)]
     = [JStr id_zero, JStr ''A'', JStr ''first idea'', JStr ''captured'', JNull, JNull, JNull,
        JStr time1, JStr time1]"
    by code_simp
  have cols_old:
    "[to_js (id_col old_idea), to_js (title_col old_idea),
      to_js (body_col old_idea), to_js (stage_col old_idea),
      to_js (essence_col old_idea), to_js (insight_col old_idea),
      to_js (next_action_col old_idea),
      to_js (created_at_col old_idea),
      to_js (updated_at_col old_idea)]
     = [JStr id_one, JStr ''Old'', JStr ''an early idea'', JStr ''captured'', JNull, JNull,
        JNull, JStr time1, JStr time1]"
    by code_simp
  note block_absent = unreadable_tags_read_as_empty
      [of "[(''id'', JStr id_zero)]" sample_platform damaged_store 0 idea_with_broken_tags
          id_one "[]"]
  note block_unparsed = unreadable_tags_read_as_empty
      [of "[(''tags'', JStr ''[not json''), (''id'', JStr id_zero)]" sample_platform
          damaged_store 1 idea_without_tags id_zero "[]"]
  note old_table = unreadable_tags_read_as_empty
      [of "[(''id'', JStr id_zero)]" sample_platform unmigrated_store 0 old_idea id_one "[]"]
  have b1: "parse_tags sample_platform [(''id'', JStr id_zero)]
              = [(''id'', JStr id_zero), (''tags'', JArr [])]"
    using block_absent absent by simp
  have b2: "parse_tags sample_platform [(''tags'', JStr ''[not json''), (''id'', JStr id_zero)]
              = [(''tags'', JArr []), (''id'', JStr id_zero)]"
    using block_unparsed unparsed by simp
  have l0: "getAllIdeas sample_platform damaged_store ! 0
              = [(''id'', JStr id_one), (''title'', JStr ''B''), (''body'', JStr ''second idea''),
                 (''stage'', JStr ''captured''), (''tags'', JArr []), (''essence'', JNull),
                 (''insight'', JNull), (''next_action'', JNull), (''created_at'', JStr time2),
                 (''updated_at'', JStr time2)]"
    using block_absent broken o0 len sch cols_broken by simp
  have l1: "getAllIdeas sample_platform damaged_store ! 1
              = [(''id'', JStr id_zero), (''title'', JStr ''A''), (''body'', JStr ''first idea''),
                 (''stage'', JStr ''captured''), (''tags'', JArr []), (''essence'', JNull),
                 (''insight'', JNull), (''next_action'', JNull), (''created_at'', JStr time1),
                 (''updated_at'', JStr time1)]"
    using block_unparsed null o1 len sch cols_without by simp
  have ll: "length (getAllIdeas sample_platform damaged_store) = 2"
    using block_absent len by simp
  have listing: "getAllIdeas sample_platform damaged_store
       = [getAllIdeas sample_platform damaged_store ! 0,
          getAllIdeas sample_platform damaged_store ! 1]"
    using ll by (cases "getAllIdeas sample_platform damaged_store")
                (auto simp: length_Suc_conv)
  have g0: "getIdea sample_platform damaged_store id_zero
       = Some [(''id'', JStr id_zero), (''title'', JStr ''A''), (''body'', JStr ''first idea''),
               (''stage'', JStr ''captured''), (''tags'', JArr []), (''essence'', JNull),
               (''insight'', JNull), (''next_action'', JNull), (''created_at'', JStr time1),
               (''updated_at'', JStr time1)]"
    using block_unparsed null f0 sch cols_without by simp
  have g1: "getIdea sample_platform damaged_store id_one
       = Some [(''id'', JStr id_one), (''title'', JStr ''B''), (''body'', JStr ''second idea''),
               (''stage'', JStr ''captured''), (''tags'', JArr []), (''essence'', JNull),
               (''insight'', JNull), (''next_action'', JNull), (''created_at'', JStr time2),
               (''updated_at'', JStr time2)]"
    using block_absent broken f1 sch cols_broken by simp
  have g2: "getIdea sample_platform unmigrated_store id_one
       = Some [(''id'', JStr id_one), (''title'', JStr ''Old''),
               (''body'', JStr ''an early idea''), (''stage'', JStr ''captured''),
               (''essence'', JNull), (''insight'', JNull), (''next_action'', JNull),
               (''created_at'', JStr time1), (''updated_at'', JStr time1),
               (''tags'', JArr [])]"
    using old_table old f2 sch_old cols_old by simp
  show ?thesis
    using b1 b2 null broken listing l0 l1 g0 g1 old g2 by simp
qed

end
